theory Spec2Isabelle
  imports Complex_Main "HOL-Library.AList"
begin

section \<open>Data model\<close>

text \<open>
  The development embeds \<^verbatim>\<open>src/agentslack/api.py\<close>: the tool dispatcher
  \<^verbatim>\<open>call_tool\<close> and the helpers \<^verbatim>\<open>only_show_new_messages\<close>,
  \<^verbatim>\<open>update_channels\<close> and \<^verbatim>\<open>_update_agent_read_messages\<close> of class
  \<^verbatim>\<open>Server\<close>.

  A Python float is modelled as the real number it denotes, so the comparisons of the
  source are the comparisons of the model. No float is computed in the model: the
  floats the source obtains (\<^verbatim>\<open>time.time()\<close>, the time of a backend record,
  the start of a world) are given to it. The export of the agent logs to disk, which
  \<^verbatim>\<open>_update_agent_read_messages\<close> triggers after it has changed the ledger, is
  input/output and is left out.
\<close>

subsection \<open>Errors\<close>

text \<open>
  Every exception the modelled code can raise is a value. \<open>HTTPException\<close> carries the
  status code and the detail of the source; the others are the Python exceptions raised by
  a failed registry lookup, a missing dictionary key, an unbound local variable and a
  failed \<^verbatim>\<open>float()\<close>.
\<close>

datatype error =
    HTTPException nat string
  | NotFound
  | KeyError string
  | UnboundLocalError string
  | ValueError

subsection \<open>Messages, channels, agents\<close>

text \<open>
  The \<^verbatim>\<open>timestamp\<close> attribute of a \<^verbatim>\<open>Message\<close> holds a string when the
  message is built from a backend record (\<^verbatim>\<open>message['ts']\<close>, whole or cut at the
  dot) and a float when the message is built at send time (\<^verbatim>\<open>time.time()\<close>). In
  Python a string never equals a float.
\<close>

datatype ts_val = TsStr string | TsFloat real

text \<open>
  Modelled from the spec: the declaration of \<^verbatim>\<open>Message\<close> in
  \<^verbatim>\<open>agentslack.types\<close> is missing from the sources. The attributes are the keyword
  arguments of the constructor calls in \<^verbatim>\<open>api.py\<close>; equality is equality of all
  attributes (section 3 of the spec: two messages are identical iff all attributes match
  exactly). The attribute \<^verbatim>\<open>agent_name\<close> is what the reverse lookups of the registry
  return: a name, or \<open>None\<close>.
\<close>

datatype message = Message
  (message: string)
  (channel_id: string)
  (user_id: string)
  (timestamp: ts_val)
  (agent_name: "string option")

text \<open>
  Modelled from the spec: the declaration of \<^verbatim>\<open>Channel\<close> in
  \<^verbatim>\<open>agentslack.types\<close> is missing; its attributes are the keyword arguments
  \<^verbatim>\<open>slack_id\<close> and \<^verbatim>\<open>name\<close> of the constructor calls in
  \<^verbatim>\<open>update_channels\<close>.
\<close>

datatype channel = Channel (slack_id: string) (name: string)

text \<open>
  Modelled from the spec: the declaration of \<^verbatim>\<open>Agent\<close> in
  \<^verbatim>\<open>agentslack.types\<close> is missing. \<open>app_slack_id\<close> is
  \<^verbatim>\<open>agent.slack_app.slack_id\<close>. The ledger \<open>read_messages\<close> maps a channel id to
  the messages delivered so far; a channel never seen holds the empty sequence (section 4.4
  of the spec), which is how \<^verbatim>\<open>agent.read_messages[channel_id]\<close> is read below.
  The attribute \<^verbatim>\<open>slack_client\<close> is the handle to the external backend and is
  passed to every operation as its own argument.
\<close>

record agent =
  world_name :: string
  app_slack_id :: string
  channels :: "channel list"
  read_messages :: "string \<rightharpoonup> message list"

text \<open>
  Modelled from the spec: the declarations of the human and world entries of the registry
  are missing. A human has a name and the backend identity
  \<^verbatim>\<open>slack_member_id\<close>; a world has its creation time \<^verbatim>\<open>start_datetime\<close>, a
  float, and the channels created within it (section 3 of the spec).
\<close>

record human =
  human_name :: string
  slack_member_id :: string

record world =
  start_datetime :: real
  world_channels :: "channel list"

subsection \<open>The registry\<close>

text \<open>
  Modelled from the spec: class \<^verbatim>\<open>Registry\<close> (\<^verbatim>\<open>agentslack.registry\<close>) is
  missing from the sources. Following section 4.1 of the spec it is a store of worlds,
  agents, humans and channels with lookups by name; agents and worlds are kept in
  dictionaries keyed by name (association lists, in insertion order).
\<close>

record registry =
  agents :: "(string \<times> agent) list"
  worlds :: "(string \<times> world) list"
  humans :: "human list"
  registered_channels :: "channel list"
  always_add_users :: "string list"

text \<open>
  Modelled from the spec: \<^verbatim>\<open>get_agent\<close>, \<^verbatim>\<open>get_world\<close>,
  \<^verbatim>\<open>get_human\<close> and \<^verbatim>\<open>get_channel\<close> are missing. A lookup of an unknown
  name fails with \<open>NotFound\<close> (section 4.1 of the spec).
\<close>

definition get_agent :: "registry \<Rightarrow> string \<Rightarrow> error + agent" where
  "get_agent reg n = (case map_of (agents reg) n of None \<Rightarrow> Inl NotFound | Some a \<Rightarrow> Inr a)"

text \<open>
  Modelled from the spec: \<^verbatim>\<open>agent_exists\<close> and \<^verbatim>\<open>get_all_agent_names\<close> are
  missing: "does agent exist" and "list all agent names" of section 4.1.
\<close>

definition agent_exists :: "registry \<Rightarrow> string \<Rightarrow> bool" where
  "agent_exists reg n = (map_of (agents reg) n \<noteq> None)"

definition get_all_agent_names :: "registry \<Rightarrow> string list" where
  "get_all_agent_names reg = map fst (agents reg)"

definition get_world :: "registry \<Rightarrow> string \<Rightarrow> error + world" where
  "get_world reg n = (case map_of (worlds reg) n of None \<Rightarrow> Inl NotFound | Some w \<Rightarrow> Inr w)"

text \<open>
  Modelled from the spec: \<^verbatim>\<open>get_world_starttime_of_agent\<close> is missing; by its name,
  the \<^verbatim>\<open>start_datetime\<close> of the world the named agent belongs to.
\<close>

definition get_world_starttime_of_agent :: "registry \<Rightarrow> string \<Rightarrow> error + real" where
  "get_world_starttime_of_agent reg n =
     (case get_agent reg n of
        Inl e \<Rightarrow> Inl e
      | Inr a \<Rightarrow> (case get_world reg (world_name a) of
                   Inl e \<Rightarrow> Inl e
                 | Inr w \<Rightarrow> Inr (start_datetime w)))"

text \<open>
  Modelled from the spec: \<^verbatim>\<open>get_humans\<close>, \<^verbatim>\<open>get_human_names\<close> and
  \<^verbatim>\<open>human_exists\<close> are missing: the humans, their names, and "does human exist"
  of section 4.1.
\<close>

definition get_humans :: "registry \<Rightarrow> human list" where
  "get_humans reg = humans reg"

definition get_human_names :: "registry \<Rightarrow> string list" where
  "get_human_names reg = map human_name (humans reg)"

definition human_exists :: "registry \<Rightarrow> string \<Rightarrow> bool" where
  "human_exists reg n = (n \<in> set (get_human_names reg))"

definition get_human :: "registry \<Rightarrow> string \<Rightarrow> error + human" where
  "get_human reg n =
     (case find (\<lambda>h. human_name h = n) (humans reg) of
        None \<Rightarrow> Inl NotFound
      | Some h \<Rightarrow> Inr h)"

definition get_channel :: "registry \<Rightarrow> string \<Rightarrow> error + channel" where
  "get_channel reg n =
     (case find (\<lambda>c. name c = n) (registered_channels reg) of
        None \<Rightarrow> Inl NotFound
      | Some c \<Rightarrow> Inr c)"

text \<open>
  Modelled from the spec: \<^verbatim>\<open>get_agent_name_from_id\<close> and
  \<^verbatim>\<open>get_human_name_from_id\<close> are missing: the reverse lookups from a backend identity
  to a display name of section 4.1, one over the agents and one over the humans. They give
  \<open>None\<close> when no entry has that identity.
\<close>

definition get_agent_name_from_id :: "registry \<Rightarrow> string \<Rightarrow> string option" where
  "get_agent_name_from_id reg i =
     map_option fst (find (\<lambda>(n, a). app_slack_id a = i) (agents reg))"

definition get_human_name_from_id :: "registry \<Rightarrow> string \<Rightarrow> string option" where
  "get_human_name_from_id reg i =
     map_option human_name (find (\<lambda>h. slack_member_id h = i) (humans reg))"

text \<open>
  Modelled from the spec: \<^verbatim>\<open>get_always_add_users\<close> is missing: the configured
  identities that are present in every channel (section 4.2 of the spec).
\<close>

definition get_always_add_users :: "registry \<Rightarrow> string list" where
  "get_always_add_users reg = always_add_users reg"

text \<open>
  Modelled from the spec: \<^verbatim>\<open>register_channel\<close> is missing: the channel becomes
  known to the registry and is attached to the world of the creating agent (section 4.1
  of the spec).
\<close>

definition register_channel :: "registry \<Rightarrow> string \<Rightarrow> string \<Rightarrow> string \<Rightarrow> error + registry" where
  "register_channel reg an cname cid =
     (case get_agent reg an of
        Inl e \<Rightarrow> Inl e
      | Inr a \<Rightarrow>
          (case get_world reg (world_name a) of
             Inl e \<Rightarrow> Inl e
           | Inr w \<Rightarrow>
               Inr (reg\<lparr>registered_channels := registered_channels reg @ [Channel cid cname],
                        worlds := AList.update (world_name a)
                                    (w\<lparr>world_channels := world_channels w @ [Channel cid cname]\<rparr>)
                                    (worlds reg)\<rparr>)))"

text \<open>
  The source mutates the agent object that \<^verbatim>\<open>get_agent\<close> returns; in the model the
  changed agent is stored back under its name.
\<close>

definition put_agent :: "registry \<Rightarrow> string \<Rightarrow> agent \<Rightarrow> registry" where
  "put_agent reg n a = reg\<lparr>agents := AList.update n a (agents reg)\<rparr>"

section \<open>The read-state tracker\<close>

text \<open>
  \<^verbatim>\<open>agent.read_messages[channel_id]\<close> and
  \<^verbatim>\<open>agent.read_messages.get(channel_id, [])\<close>: the sequence recorded for the
  channel, empty when the channel was never seen.
\<close>

definition ledger_of :: "agent \<Rightarrow> string \<Rightarrow> message list" where
  "ledger_of a cid = (case read_messages a cid of None \<Rightarrow> [] | Some ms \<Rightarrow> ms)"

text \<open>
  \<^verbatim>\<open>only_show_new_messages\<close> (lines 483-493):
  \<^verbatim>\<open>[msg for msg in messages if msg not in previous_messages]\<close>.
\<close>

definition only_show_new_messages ::
  "registry \<Rightarrow> string \<Rightarrow> string \<Rightarrow> message list \<Rightarrow> error + message list" where
  "only_show_new_messages reg an cid msgs =
     (case get_agent reg an of
        Inl e \<Rightarrow> Inl e
      | Inr a \<Rightarrow>
          (let previous_messages = ledger_of a cid
           in Inr (filter (\<lambda>msg. msg \<notin> set previous_messages) msgs)))"

text \<open>
  \<^verbatim>\<open>_update_agent_read_messages\<close> (lines 554-560): the list comprehension is
  evaluated against the ledger as it is before the call, then the ledger is extended by it.
\<close>

definition update_agent_read_messages ::
  "registry \<Rightarrow> string \<Rightarrow> string \<Rightarrow> message list \<Rightarrow> error + registry" where
  "update_agent_read_messages reg an cid msgs =
     (case get_agent reg an of
        Inl e \<Rightarrow> Inl e
      | Inr a \<Rightarrow>
          Inr (put_agent reg an
                (a\<lparr>read_messages := (read_messages a)
                     (cid \<mapsto> ledger_of a cid @
                              filter (\<lambda>m. m \<notin> set (ledger_of a cid)) msgs)\<rparr>)))"

text \<open>The ledger of a named agent for a channel; empty when there is no such agent.\<close>

definition ledger :: "registry \<Rightarrow> string \<Rightarrow> string \<Rightarrow> message list" where
  "ledger reg an cid = (case get_agent reg an of Inl e \<Rightarrow> [] | Inr a \<Rightarrow> ledger_of a cid)"

section \<open>The backend client\<close>

text \<open>
  The Slack client is external. Its answers during one operation are a value of type
  \<open>slack_client\<close>, passed to the operation: one field for each method the source calls.
  A backend record of a message has the keys \<^verbatim>\<open>user\<close>, \<^verbatim>\<open>text\<close> and
  \<^verbatim>\<open>ts\<close>, all strings.

  The source reads the time of a record as
  \<^verbatim>\<open>datetime.fromtimestamp(float(msg['ts'])).timestamp()\<close> (lines 213, 272, 322).
  This is library code: the parsing of \<^verbatim>\<open>float()\<close>, the rounding to a double and
  to microseconds, the range of the calendar. It is not modelled. A record carries, as
  \<open>raw_seconds\<close>, what that expression evaluates to on the record: the float, or the
  exception it raises. So every statement about the time of a record is about the float
  the code compares, not about the decimal that the string \<^verbatim>\<open>ts\<close> spells.
\<close>

record raw_message =
  raw_user :: string
  raw_text :: string
  raw_ts :: string
  raw_seconds :: "error + real"

text \<open>
  The answer of \<^verbatim>\<open>read\<close>: \<open>resp_error\<close> is \<^verbatim>\<open>response.get('error')\<close>,
  \<open>resp_messages\<close> is \<^verbatim>\<open>response['messages']\<close>, \<open>None\<close> when the key is
  absent.
\<close>

record read_response =
  resp_error :: "string option"
  resp_messages :: "raw_message list option"

text \<open>
  Any other answer: \<open>ok\<close> is \<^verbatim>\<open>response['ok']\<close>, \<open>response_channel_id\<close> is
  \<^verbatim>\<open>response['channel']['id']\<close>, the rest is opaque.
\<close>

record response =
  ok :: bool
  response_channel_id :: string
  payload :: string

text \<open>
  \<open>list_channels\<close> and \<open>check_ongoing_dms\<close> give the value under the key
  \<^verbatim>\<open>'channels'\<close> (\<open>None\<close> when absent): the pairs of \<^verbatim>\<open>'id'\<close> and
  \<^verbatim>\<open>'name'\<close> of the named channels, and the ids of the direct-message channels.
  \<open>get_channel_members\<close> gives the value under \<^verbatim>\<open>'members'\<close>.
\<close>

record slack_client =
  open_conversation :: "string list \<Rightarrow> response"
  send_messsage :: "string \<Rightarrow> string \<Rightarrow> response"
  list_channels :: "(string \<times> string) list option"
  check_ongoing_dms :: "string list option"
  get_channel_members :: "string \<Rightarrow> string list"
  read :: "string \<Rightarrow> read_response"
  create_channel :: "string \<Rightarrow> response"
  add_user_to_channel :: "string \<Rightarrow> string list \<Rightarrow> response"

definition response_messages :: "read_response \<Rightarrow> error + raw_message list" where
  "response_messages r =
     (case resp_messages r of None \<Rightarrow> Inl (KeyError ''messages'') | Some ms \<Rightarrow> Inr ms)"

section \<open>Strings and timestamps\<close>

text \<open>\<^verbatim>\<open>message['ts'].split('.')[0]\<close>: the part before the first dot.\<close>

definition split_dot_0 :: "string \<Rightarrow> string" where
  "split_dot_0 s = takeWhile (\<lambda>c. c \<noteq> CHR ''.'') s"

text \<open>
  A list comprehension or loop that keeps the records whose time satisfies \<open>P\<close>; it raises
  when the conversion of a timestamp raises.
\<close>

fun filter_ts :: "(real \<Rightarrow> bool) \<Rightarrow> raw_message list \<Rightarrow> error + raw_message list" where
  "filter_ts P [] = Inr []"
| "filter_ts P (m # ms) =
     (case raw_seconds m of
        Inl e \<Rightarrow> Inl e
      | Inr t \<Rightarrow>
          (case filter_ts P ms of
             Inl e \<Rightarrow> Inl e
           | Inr r \<Rightarrow> Inr (if P t then m # r else r)))"

text \<open>\<^verbatim>\<open>sep.join(xs)\<close>.\<close>

fun join :: "string \<Rightarrow> string list \<Rightarrow> string" where
  "join sep [] = []"
| "join sep [x] = x"
| "join sep (x # y # ys) = x @ sep @ join sep (y # ys)"

text \<open>
  \<^verbatim>\<open>str(names)\<close> for a list of strings, as an f-string renders it: each name in single
  quotes (names are taken to hold no quote, backslash or control character).
\<close>

definition py_str_list :: "string list \<Rightarrow> string" where
  "py_str_list xs =
     ''['' @ join '', '' (map (\<lambda>x. [CHR 0x27] @ x @ [CHR 0x27]) xs) @ '']''"

text \<open>\<^verbatim>\<open>str.lower()\<close> on ASCII letters.\<close>

definition lower_char :: "char \<Rightarrow> char" where
  "lower_char c =
     (if (65::nat) \<le> of_char c \<and> of_char c \<le> (90::nat) then char_of (of_char c + (32::nat)) else c)"

definition lower :: "string \<Rightarrow> string" where
  "lower s = map lower_char s"

section \<open>The channel membership resolver\<close>

text \<open>
  \<^verbatim>\<open>update_channels\<close> (lines 495-522). The two loops carry
  \<^verbatim>\<open>all_channels\<close> and \<^verbatim>\<open>existing_channel_ids\<close>.
\<close>

fun walk_ongoing_dms ::
  "registry \<Rightarrow> slack_client \<Rightarrow> string list \<Rightarrow> channel list \<times> string set
     \<Rightarrow> channel list \<times> string set" where
  "walk_ongoing_dms reg sl [] acc = acc"
| "walk_ongoing_dms reg sl (cid # cids) (all_channels, existing_channel_ids) =
     (if cid \<notin> existing_channel_ids
      then (let channel_members =
                  filter (\<lambda>member. member \<notin> set (get_always_add_users reg))
                         (get_channel_members sl cid)
            in walk_ongoing_dms reg sl cids
                 (all_channels @ [Channel cid (join '','' channel_members)],
                  insert cid existing_channel_ids))
      else walk_ongoing_dms reg sl cids (all_channels, existing_channel_ids))"

fun walk_channels ::
  "(string \<times> string) list \<Rightarrow> channel list \<times> string set \<Rightarrow> channel list \<times> string set" where
  "walk_channels [] acc = acc"
| "walk_channels ((cid, cname) # cs) (all_channels, existing_channel_ids) =
     (if cid \<notin> existing_channel_ids
      then walk_channels cs
             (all_channels @ [Channel cid cname], insert cid existing_channel_ids)
      else walk_channels cs (all_channels, existing_channel_ids))"

definition resolve_channels :: "registry \<Rightarrow> slack_client \<Rightarrow> channel list" where
  "resolve_channels reg sl =
     (let ongoing_dms = (case check_ongoing_dms sl of None \<Rightarrow> [] | Some cs \<Rightarrow> cs);
          chans = (case list_channels sl of None \<Rightarrow> [] | Some cs \<Rightarrow> cs)
      in fst (walk_channels chans (walk_ongoing_dms reg sl ongoing_dms ([], {}))))"

definition update_channels :: "registry \<Rightarrow> slack_client \<Rightarrow> string \<Rightarrow> error + registry" where
  "update_channels reg sl an =
     (case get_agent reg an of
        Inl e \<Rightarrow> Inl e
      | Inr a \<Rightarrow> Inr (put_agent reg an (a\<lparr>channels := resolve_channels reg sl\<rparr>)))"

section \<open>The tool dispatcher\<close>

text \<open>
  \<^verbatim>\<open>call_tool\<close> (lines 135-417). An operation takes the registry, the answers of
  the backend, the reading of \<^verbatim>\<open>time.time()\<close> and the dictionary of parameters. It
  gives what the source returns, or the exception it raises, together with the registry as
  the operation leaves it: what was changed before an exception stays changed.

  The source keeps an agent object while \<^verbatim>\<open>update_channels\<close> mutates it (line 306
  reads \<^verbatim>\<open>agent.channels\<close> of the object fetched on line 298); the model fetches the
  agent again from the changed registry.
\<close>

datatype tool_result =
    RString string
  | RMessages "message list"
  | RNewMessages "message list list"
  | RResponse response
  | RChannels "(string \<times> string) list"
  | ROngoingDMs "string list option"
  | RHumans "human list"

type_synonym outcome = "(error + tool_result) \<times> registry"

definition param :: "(string \<rightharpoonup> string) \<Rightarrow> string \<Rightarrow> error + string" where
  "param parameters k = (case parameters k of None \<Rightarrow> Inl (KeyError k) | Some v \<Rightarrow> Inr v)"

text \<open>Evaluate \<open>x\<close>; an exception ends the operation with the registry \<open>reg\<close>.\<close>

definition attempt :: "error + 'a \<Rightarrow> registry \<Rightarrow> ('a \<Rightarrow> outcome) \<Rightarrow> outcome" where
  "attempt x reg k = (case x of Inl e \<Rightarrow> (Inl e, reg) | Inr v \<Rightarrow> k v)"

definition return_agent_doesnt_exist_error :: "registry \<Rightarrow> string \<Rightarrow> bool \<Rightarrow> string" where
  "return_agent_doesnt_exist_error reg an sender =
     (if sender
      then ''The sender '' @ [CHR 0x27] @ an @ [CHR 0x27]
             @ '' does not exist, here are possible agents: ''
             @ py_str_list (get_all_agent_names reg)
      else ''The agent '' @ [CHR 0x27] @ an @ [CHR 0x27]
             @ '' does not exist, here are possible agents: ''
             @ py_str_list (get_all_agent_names reg))"

definition return_human_doesnt_exist_error :: "registry \<Rightarrow> string \<Rightarrow> string" where
  "return_human_doesnt_exist_error reg hn =
     ''The human '' @ [CHR 0x27] @ hn @ [CHR 0x27]
       @ '' does not exist, here are possible humans: ''
       @ py_str_list (get_human_names reg)"

definition not_a_member :: string where
  "not_a_member =
     ''You are not a member of this channel, you can'' @ [CHR 0x27] @ ''t read it.''"

text \<open>
  Lines 214-218 and 267-271: the display name of the sender of a backend record, as
  \<^verbatim>\<open>read_channel\<close> and \<^verbatim>\<open>read_dm\<close> compute it. The test is whether the
  sender's backend identity is in the list of agent names.
\<close>

definition sender_display_name :: "registry \<Rightarrow> string \<Rightarrow> string option" where
  "sender_display_name reg u =
     (if u \<in> set (get_all_agent_names reg)
      then get_agent_name_from_id reg u
      else get_human_name_from_id reg u)"

subsection \<open>Sending\<close>

definition send_direct_message ::
  "registry \<Rightarrow> slack_client \<Rightarrow> real \<Rightarrow> (string \<rightharpoonup> string) \<Rightarrow> outcome" where
  "send_direct_message reg sl now parameters =
     attempt (param parameters ''recipient_name'') reg (\<lambda>rn.
     if \<not> agent_exists reg rn
     then (if human_exists reg rn
           then (Inr (RString ''You are trying to send a message to a human. For that use the send_message_to_human tool.''), reg)
           else (Inr (RString (return_agent_doesnt_exist_error reg rn False)), reg))
     else
     attempt (param parameters ''your_name'') reg (\<lambda>yn.
     if \<not> agent_exists reg yn
     then (Inr (RString (return_agent_doesnt_exist_error reg yn False)), reg)
     else
     attempt (get_agent reg yn) reg (\<lambda>ya.
     attempt (get_agent reg rn) reg (\<lambda>ra.
     let id_of_recipient = app_slack_id ra;
         response = open_conversation sl [id_of_recipient]
     in if \<not> ok response
        then (Inl (HTTPException 400 ''Failed to open conversation''), reg)
        else
     let cid = response_channel_id response in
     attempt (param parameters ''message'') reg (\<lambda>msg.
     let response = send_messsage sl msg cid in
     attempt (update_channels reg sl yn) reg (\<lambda>reg1.
     attempt (get_agent reg1 yn) reg1 (\<lambda>a1.
     attempt (update_agent_read_messages reg1 yn cid
                [Message msg cid (app_slack_id a1) (TsFloat now) (Some yn)]) reg1 (\<lambda>reg2.
     (Inr (RResponse response), reg2)))))))))"

definition send_message_to_channel ::
  "registry \<Rightarrow> slack_client \<Rightarrow> real \<Rightarrow> (string \<rightharpoonup> string) \<Rightarrow> outcome" where
  "send_message_to_channel reg sl now parameters =
     attempt (param parameters ''your_name'') reg (\<lambda>yn.
     if \<not> agent_exists reg yn
     then (Inr (RString (return_agent_doesnt_exist_error reg yn False)), reg)
     else
     attempt (get_agent reg yn) reg (\<lambda>ya.
     attempt (param parameters ''channel_name'') reg (\<lambda>channel_name.
     let channel_names = map name (channels ya) in
     if channel_name \<notin> set channel_names
     then (Inr (RString
             (''Sorry this channel doesn'' @ [CHR 0x27]
                @ ''t exist, you can create a new channel with the create_channel tool.''
                @ ''Here is a list of all the channels you have access to: ''
                @ py_str_list channel_names)), reg)
     else
     attempt (get_channel reg channel_name) reg (\<lambda>ch.
     let cid = slack_id ch in
     attempt (param parameters ''message'') reg (\<lambda>msg.
     let response = send_messsage sl msg cid in
     attempt (update_agent_read_messages reg yn cid
                [Message msg cid yn (TsFloat now) (Some yn)]) reg (\<lambda>reg1.
     attempt (update_channels reg1 sl yn) reg1 (\<lambda>reg2.
     (Inr (RResponse response), reg2))))))))"

definition send_message_to_human ::
  "registry \<Rightarrow> slack_client \<Rightarrow> real \<Rightarrow> (string \<rightharpoonup> string) \<Rightarrow> outcome" where
  "send_message_to_human reg sl now parameters =
     attempt (param parameters ''your_name'') reg (\<lambda>yn.
     attempt (get_agent reg yn) reg (\<lambda>ya.
     attempt (param parameters ''human_name'') reg (\<lambda>hn.
     attempt (get_human reg hn) reg (\<lambda>h.
     let human_id = slack_member_id h in
     if hn \<notin> set (get_human_names reg)
     then (Inr (RString
             (''The human '' @ [CHR 0x27] @ hn @ [CHR 0x27]
                @ '' does not exist, here are possible humans: ''
                @ py_str_list (get_human_names reg))), reg)
     else
     let response = open_conversation sl [human_id]
     in if \<not> ok response
        then (Inl (HTTPException 400 ''Failed to open conversation''), reg)
        else
     let cid = response_channel_id response in
     attempt (param parameters ''message'') reg (\<lambda>msg.
     let response = send_messsage sl msg cid in
     attempt (get_agent reg yn) reg (\<lambda>a1.
     attempt (update_agent_read_messages reg yn cid
                [Message msg cid (app_slack_id a1) (TsFloat now) (Some yn)]) reg (\<lambda>reg1.
     (Inr (RResponse response), reg1))))))))"

subsection \<open>Reading\<close>

text \<open>Lines 219-226: a \<^verbatim>\<open>Message\<close> of \<^verbatim>\<open>read_channel\<close> keeps the raw timestamp.\<close>

definition channel_message :: "registry \<Rightarrow> string \<Rightarrow> raw_message \<Rightarrow> message" where
  "channel_message reg cid m =
     Message (raw_text m) cid (raw_user m) (TsStr (raw_ts m))
       (sender_display_name reg (raw_user m))"

text \<open>Lines 273-279: a \<^verbatim>\<open>Message\<close> of \<^verbatim>\<open>read_dm\<close> cuts the timestamp at the dot.\<close>

definition dm_message :: "registry \<Rightarrow> string \<Rightarrow> raw_message \<Rightarrow> message" where
  "dm_message reg cid m =
     Message (raw_text m) cid (raw_user m) (TsStr (split_dot_0 (raw_ts m)))
       (sender_display_name reg (raw_user m))"

text \<open>
  Lines 325-331: a \<^verbatim>\<open>Message\<close> of \<^verbatim>\<open>check_new_messages\<close>; the display name is
  \<^verbatim>\<open>get_agent_name_from_id\<close> alone.
\<close>

definition new_message :: "registry \<Rightarrow> string \<Rightarrow> raw_message \<Rightarrow> message" where
  "new_message reg cid m =
     Message (raw_text m) cid (raw_user m) (TsStr (split_dot_0 (raw_ts m)))
       (get_agent_name_from_id reg (raw_user m))"

definition read_channel ::
  "registry \<Rightarrow> slack_client \<Rightarrow> (string \<rightharpoonup> string) \<Rightarrow> outcome" where
  "read_channel reg sl parameters =
     attempt (param parameters ''your_name'') reg (\<lambda>yn.
     if \<not> agent_exists reg yn
     then (Inr (RString (return_agent_doesnt_exist_error reg yn False)), reg)
     else
     attempt (get_agent reg yn) reg (\<lambda>ya.
     attempt (param parameters ''channel_name'') reg (\<lambda>channel_name.
     attempt (get_channel reg channel_name) reg (\<lambda>ch.
     let cid = slack_id ch;
         response = read sl cid
     in
     attempt (response_messages response) reg (\<lambda>raw.
     if length raw = 0
     then (Inr (RString not_a_member), reg)
     else
     attempt (get_agent reg yn) reg (\<lambda>a.
     attempt (get_world reg (world_name a)) reg (\<lambda>w.
     let world_start_datetime = start_datetime w in
     attempt (filter_ts (\<lambda>t. t > world_start_datetime) raw) reg (\<lambda>kept.
     let messages = map (channel_message reg cid) kept in
     attempt (update_agent_read_messages reg yn cid messages) reg (\<lambda>reg1.
     (Inr (RMessages messages), reg1))))))))))"

text \<open>
  Lines 255-261: the first ongoing direct-message channel with the expected number of
  members that holds both the sender and the receiver. When there is none,
  \<^verbatim>\<open>channel_id\<close> is never assigned and line 263 raises.
\<close>

definition find_dm_channel ::
  "slack_client \<Rightarrow> nat \<Rightarrow> string \<Rightarrow> string \<Rightarrow> string list \<Rightarrow> error + string" where
  "find_dm_channel sl total_users sender_id receiver_id chans =
     (case find (\<lambda>c. let members = get_channel_members sl c
                     in length members = total_users
                        \<and> sender_id \<in> set members \<and> receiver_id \<in> set members) chans of
        None \<Rightarrow> Inl (UnboundLocalError ''channel_id'')
      | Some c \<Rightarrow> Inr c)"

definition read_dm ::
  "registry \<Rightarrow> slack_client \<Rightarrow> (string \<rightharpoonup> string) \<Rightarrow> outcome" where
  "read_dm reg sl parameters =
     attempt (param parameters ''your_name'') reg (\<lambda>yn.
     if \<not> agent_exists reg yn
     then (Inr (RString (return_agent_doesnt_exist_error reg yn False)), reg)
     else
     attempt (param parameters ''sender_name'') reg (\<lambda>sender_name.
     if \<not> agent_exists reg sender_name
     then (Inr (RString (return_agent_doesnt_exist_error reg sender_name True)), reg)
     else
     let total_users = length (get_humans reg) + 2 in
     attempt (get_agent reg yn) reg (\<lambda>your_agent.
     attempt (get_world_starttime_of_agent reg sender_name) reg (\<lambda>world_start_datetime.
     attempt (get_agent reg sender_name) reg (\<lambda>sender_agent.
     let sender_id = app_slack_id sender_agent;
         receiver_id = app_slack_id your_agent
     in
     attempt (case check_ongoing_dms sl of
                None \<Rightarrow> Inl (KeyError ''channels'')
              | Some cs \<Rightarrow> Inr cs) reg (\<lambda>chans.
     attempt (find_dm_channel sl total_users sender_id receiver_id chans) reg (\<lambda>cid.
     let response = read sl cid in
     (case resp_error response of
        Some (c # cs) \<Rightarrow> (Inr (RString (c # cs)), reg)
      | _ \<Rightarrow>
     attempt (response_messages response) reg (\<lambda>raw.
     attempt (filter_ts (\<lambda>t. t \<ge> world_start_datetime) raw) reg (\<lambda>kept.
     let messages = map (dm_message reg cid) kept in
     attempt (update_agent_read_messages reg yn cid messages) reg (\<lambda>reg1.
     (Inr (RMessages messages), reg1))))))))))))"

text \<open>
  Lines 318-340: the body of the loop over the channels. \<open>None\<close> is the
  \<^verbatim>\<open>continue\<close> of line 334; \<open>Some new_messages\<close> is what line 338 appends.
\<close>

definition check_channel ::
  "registry \<Rightarrow> slack_client \<Rightarrow> string \<Rightarrow> real \<Rightarrow> string
     \<Rightarrow> (error + message list option) \<times> registry" where
  "check_channel reg sl yn world_start_datetime cid =
     (case response_messages (read sl cid) of
        Inl e \<Rightarrow> (Inl e, reg)
      | Inr messages \<Rightarrow>
     (case filter_ts (\<lambda>t. t \<ge> world_start_datetime) messages of
        Inl e \<Rightarrow> (Inl e, reg)
      | Inr kept \<Rightarrow>
     let msgs_after = map (new_message reg cid) kept in
     if length msgs_after = 0 then (Inr None, reg)
     else
     (case only_show_new_messages reg yn cid msgs_after of
        Inl e \<Rightarrow> (Inl e, reg)
      | Inr new_messages \<Rightarrow>
     (case update_agent_read_messages reg yn cid new_messages of
        Inl e \<Rightarrow> (Inl e, reg)
      | Inr reg1 \<Rightarrow> (Inr (Some new_messages), reg1)))))"

fun check_loop ::
  "registry \<Rightarrow> slack_client \<Rightarrow> string \<Rightarrow> real \<Rightarrow> string list \<Rightarrow> message list list
     \<Rightarrow> (error + message list list) \<times> registry" where
  "check_loop reg sl yn wsd [] all_new_messages = (Inr all_new_messages, reg)"
| "check_loop reg sl yn wsd (cid # cids) all_new_messages =
     (case check_channel reg sl yn wsd cid of
        (Inl e, reg1) \<Rightarrow> (Inl e, reg1)
      | (Inr None, reg1) \<Rightarrow> check_loop reg1 sl yn wsd cids all_new_messages
      | (Inr (Some new_messages), reg1) \<Rightarrow>
          check_loop reg1 sl yn wsd cids (all_new_messages @ [new_messages]))"

text \<open>Lines 309-314: the channels of the list that still have the agent as a member.\<close>

definition channel_ids_with_agent :: "slack_client \<Rightarrow> string \<Rightarrow> string list \<Rightarrow> string list" where
  "channel_ids_with_agent sl agent_id channel_ids =
     filter (\<lambda>cid. agent_id \<in> set (get_channel_members sl cid)) channel_ids"

definition check_new_messages ::
  "registry \<Rightarrow> slack_client \<Rightarrow> (string \<rightharpoonup> string) \<Rightarrow> outcome" where
  "check_new_messages reg sl parameters =
     attempt (param parameters ''your_name'') reg (\<lambda>yn.
     if \<not> agent_exists reg yn
     then (Inr (RString (return_agent_doesnt_exist_error reg yn False)), reg)
     else
     attempt (get_agent reg yn) reg (\<lambda>a.
     let agent_id = app_slack_id a in
     attempt (get_world reg (world_name a)) reg (\<lambda>w.
     let world_start_datetime = start_datetime w in
     attempt (update_channels reg sl yn) reg (\<lambda>reg1.
     attempt (get_agent reg1 yn) reg1 (\<lambda>a1.
     let channel_ids = map slack_id (channels a1) in
     (case check_loop reg1 sl yn world_start_datetime
             (channel_ids_with_agent sl agent_id channel_ids) [] of
        (Inl e, reg2) \<Rightarrow> (Inl e, reg2)
      | (Inr all_new_messages, reg2) \<Rightarrow> (Inr (RNewMessages all_new_messages), reg2)))))))"

subsection \<open>The other tools\<close>

definition list_channels_tool ::
  "registry \<Rightarrow> slack_client \<Rightarrow> (string \<rightharpoonup> string) \<Rightarrow> outcome" where
  "list_channels_tool reg sl parameters =
     attempt (param parameters ''your_name'') reg (\<lambda>yn.
     if \<not> agent_exists reg yn
     then (Inr (RString (return_agent_doesnt_exist_error reg yn False)), reg)
     else
     attempt (get_agent reg yn) reg (\<lambda>ya.
     (case list_channels sl of
        None \<Rightarrow> (Inl (KeyError ''channels''), reg)
      | Some cs \<Rightarrow> (Inr (RChannels cs), reg))))"

definition check_ongoing_dms_tool ::
  "registry \<Rightarrow> slack_client \<Rightarrow> (string \<rightharpoonup> string) \<Rightarrow> outcome" where
  "check_ongoing_dms_tool reg sl parameters =
     attempt (param parameters ''your_name'') reg (\<lambda>yn.
     if \<not> agent_exists reg yn
     then (Inr (RString (return_agent_doesnt_exist_error reg yn False)), reg)
     else
     attempt (get_agent reg yn) reg (\<lambda>ya.
     (Inr (ROngoingDMs (check_ongoing_dms sl)), reg)))"

definition get_human_info :: "registry \<Rightarrow> outcome" where
  "get_human_info reg = (Inr (RHumans (get_humans reg)), reg)"

definition create_channel_tool ::
  "registry \<Rightarrow> slack_client \<Rightarrow> (string \<rightharpoonup> string) \<Rightarrow> outcome" where
  "create_channel_tool reg sl parameters =
     attempt (param parameters ''channel_name'') reg (\<lambda>cn.
     let channel_name = lower cn in
     attempt (param parameters ''your_name'') reg (\<lambda>yn.
     if yn \<notin> set (get_all_agent_names reg)
     then (Inr (RString
             (''Your name is incorrect, here are possible variants for your name: ''
                @ py_str_list (get_all_agent_names reg))), reg)
     else
     attempt (get_agent reg yn) reg (\<lambda>ya.
     let response = create_channel sl channel_name in
     attempt (register_channel reg yn channel_name (response_channel_id response)) reg
       (\<lambda>reg1.
     (Inr (RResponse response), reg1)))))"

definition add_member_to_channel ::
  "registry \<Rightarrow> slack_client \<Rightarrow> (string \<rightharpoonup> string) \<Rightarrow> outcome" where
  "add_member_to_channel reg sl parameters =
     attempt (param parameters ''your_name'') reg (\<lambda>yn.
     attempt (get_agent reg yn) reg (\<lambda>a.
     attempt (param parameters ''member_to_add'') reg (\<lambda>member_to_add.
     if member_to_add \<notin> set (get_all_agent_names reg)
     then (if member_to_add \<in> set (get_human_names reg)
           then (Inr (RString (''You are trying to add a human to a channel. You can''
                   @ [CHR 0x27]
                   @ ''t add humans to a channel directly. Ask the human directly to join.'')),
                 reg)
           else (Inr (RString
                   (''The member '' @ [CHR 0x27] @ member_to_add @ [CHR 0x27]
                      @ '' does not exist, here are the names of all agents: ''
                      @ py_str_list (get_all_agent_names reg))), reg))
     else
     attempt (get_agent reg member_to_add) reg (\<lambda>other_agent.
     attempt (param parameters ''channel_name'') reg (\<lambda>channel_name.
     attempt (get_channel reg channel_name) reg (\<lambda>ch.
     let response = add_user_to_channel sl (slack_id ch) [app_slack_id other_agent] in
     (Inr (RResponse response), reg)))))))"

subsection \<open>Dispatch\<close>

text \<open>The keys of \<^verbatim>\<open>self.tools\<close> (lines 44-126).\<close>

definition tools :: "string list" where
  "tools =
     [''send_direct_message'', ''send_message_to_channel'', ''read_dm'',
      ''check_new_messages'', ''read_channel'', ''list_channels'', ''create_channel'',
      ''get_human_info'', ''send_message_to_human'', ''add_member_to_channel'']"

definition call_tool ::
  "registry \<Rightarrow> slack_client \<Rightarrow> real \<Rightarrow> string \<Rightarrow> (string \<rightharpoonup> string) \<Rightarrow> outcome" where
  "call_tool reg sl now tool_name parameters =
     (if tool_name \<notin> set tools then (Inl (HTTPException 404 ''Tool not found''), reg)
      else if tool_name = ''send_direct_message''
        then send_direct_message reg sl now parameters
      else if tool_name = ''send_message_to_channel''
        then send_message_to_channel reg sl now parameters
      else if tool_name = ''list_channels'' then list_channels_tool reg sl parameters
      else if tool_name = ''read_channel'' then read_channel reg sl parameters
      else if tool_name = ''read_dm'' then read_dm reg sl parameters
      else if tool_name = ''check_ongoing_dms'' then check_ongoing_dms_tool reg sl parameters
      else if tool_name = ''check_new_messages'' then check_new_messages reg sl parameters
      else if tool_name = ''get_human_info'' then get_human_info reg
      else if tool_name = ''send_message_to_human''
        then send_message_to_human reg sl now parameters
      else if tool_name = ''create_channel'' then create_channel_tool reg sl parameters
      else if tool_name = ''add_member_to_channel''
        then add_member_to_channel reg sl parameters
      else (Inl (HTTPException 400 ''Tool execution failed''), reg))"

text \<open>
  A run of the server: the operations of a list, one after the other, each with the
  backend and the clock as they are when it is called.
\<close>

fun run ::
  "registry \<Rightarrow> (slack_client \<times> real \<times> string \<times> (string \<rightharpoonup> string)) list \<Rightarrow> registry" where
  "run reg [] = reg"
| "run reg ((sl, now, tool_name, parameters) # calls) =
     run (snd (call_tool reg sl now tool_name parameters)) calls"

section \<open>Notions used in the statements\<close>

text \<open>
  The candidate list that \<^verbatim>\<open>check_new_messages\<close> builds for one channel (lines
  319-331): the backend records of the channel at or after the start of the world, as
  messages. It is empty when the read or a timestamp fails.
\<close>

definition candidates :: "registry \<Rightarrow> slack_client \<Rightarrow> real \<Rightarrow> string \<Rightarrow> message list" where
  "candidates reg sl wsd cid =
     (case response_messages (read sl cid) of
        Inl e \<Rightarrow> []
      | Inr messages \<Rightarrow>
          (case filter_ts (\<lambda>t. t \<ge> wsd) messages of
             Inl e \<Rightarrow> []
           | Inr kept \<Rightarrow> map (new_message reg cid) kept))"

text \<open>
  The channels \<^verbatim>\<open>check_new_messages\<close> walks for an agent with backend identity
  \<open>agent_id\<close>: the resolved channels that still have the agent as a member.
\<close>

definition polled_channels :: "registry \<Rightarrow> slack_client \<Rightarrow> string \<Rightarrow> string list" where
  "polled_channels reg sl agent_id =
     channel_ids_with_agent sl agent_id (map slack_id (resolve_channels reg sl))"

text \<open>The code reads the time of a backend record as the float \<open>t\<close>.\<close>

definition sent_at :: "raw_message \<Rightarrow> real \<Rightarrow> bool" where
  "sent_at r t = (raw_seconds r = Inr t)"

text \<open>The records of the backend's history of a channel.\<close>

definition history :: "slack_client \<Rightarrow> string \<Rightarrow> raw_message list" where
  "history sl cid = (case resp_messages (read sl cid) of None \<Rightarrow> [] | Some ms \<Rightarrow> ms)"

text \<open>
  \<open>agent_local reg n reg'\<close>: the registry \<open>reg'\<close> is \<open>reg\<close> with the agent named
  \<open>n\<close> replaced by an agent of the same world and the same backend identity. This is all
  that \<^verbatim>\<open>update_channels\<close> and \<^verbatim>\<open>_update_agent_read_messages\<close> do to a
  registry.
\<close>

definition agent_local :: "registry \<Rightarrow> string \<Rightarrow> registry \<Rightarrow> bool" where
  "agent_local reg n reg' =
     (\<exists>a a'. get_agent reg n = Inr a \<and> reg' = put_agent reg n a'
        \<and> world_name a' = world_name a \<and> app_slack_id a' = app_slack_id a)"

text \<open>
  \<open>ledger_extends P reg reg'\<close>: every ledger of \<open>reg'\<close> is the ledger of \<open>reg\<close> with
  messages appended, and the appended messages satisfy \<open>P\<close>.
\<close>

definition ledger_extends :: "(message \<Rightarrow> bool) \<Rightarrow> registry \<Rightarrow> registry \<Rightarrow> bool" where
  "ledger_extends P reg reg' =
     (\<forall>an cid. \<exists>ms. ledger reg' an cid = ledger reg an cid @ ms \<and> (\<forall>m \<in> set ms. P m))"

text \<open>
  A message as a send operation records it (lines 164, 185, 371-376): stamped with the
  float \<^verbatim>\<open>time.time()\<close> and carrying the sender's name and the text of the
  parameters. A channel send also puts the sender's name in \<^verbatim>\<open>user_id\<close>.
\<close>

definition self_record :: "real \<Rightarrow> (string \<rightharpoonup> string) \<Rightarrow> message \<Rightarrow> bool" where
  "self_record now parameters m =
     (timestamp m = TsFloat now \<and> agent_name m = parameters ''your_name''
        \<and> Some (message m) = parameters ''message'')"

definition channel_self_record :: "real \<Rightarrow> (string \<rightharpoonup> string) \<Rightarrow> message \<Rightarrow> bool" where
  "channel_self_record now parameters m =
     (self_record now parameters m \<and> Some (user_id m) = parameters ''your_name'')"

text \<open>A message stamped by the backend: its timestamp is a string.\<close>

definition str_stamped :: "message \<Rightarrow> bool" where
  "str_stamped m = (case timestamp m of TsFloat x \<Rightarrow> False | TsStr s \<Rightarrow> True)"

text \<open>
  The read or the time filter of \<^verbatim>\<open>check_new_messages\<close> does not raise on the
  channel.
\<close>

definition readable :: "slack_client \<Rightarrow> real \<Rightarrow> string \<Rightarrow> bool" where
  "readable sl wsd cid =
     (case response_messages (read sl cid) of
        Inl e \<Rightarrow> False
      | Inr messages \<Rightarrow>
          (case filter_ts (\<lambda>t. t \<ge> wsd) messages of Inl e \<Rightarrow> False | Inr kept \<Rightarrow> True))"

section \<open>A concrete world\<close>

text \<open>
  World \<open>W\<close> starts at 1000 and holds the agents alice and bob; world \<open>W2\<close> starts at
  2000 and holds dave. carol is a human. The backend has one direct-message channel
  \<open>D1\<close>, whose members and history are given, and one named channel \<open>C1\<close>, with
  the given history or with no messages.
\<close>

definition ex_agent :: "string \<Rightarrow> string \<Rightarrow> agent" where
  "ex_agent w i =
     \<lparr>world_name = w, app_slack_id = i, channels = [], read_messages = Map.empty\<rparr>"

definition ex_reg :: registry where
  "ex_reg =
     \<lparr>agents = [(''alice'', ex_agent ''W'' ''UA''), (''bob'', ex_agent ''W'' ''UB''),
                (''dave'', ex_agent ''W2'' ''UD'')],
      worlds = [(''W'', \<lparr>start_datetime = 1000, world_channels = []\<rparr>),
                (''W2'', \<lparr>start_datetime = 2000, world_channels = []\<rparr>)],
      humans = [\<lparr>human_name = ''carol'', slack_member_id = ''UH''\<rparr>],
      registered_channels = [Channel ''C1'' ''general''],
      always_add_users = [''UH'']\<rparr>"

definition ex_response :: response where
  "ex_response = \<lparr>ok = True, response_channel_id = ''D1'', payload = ''sent''\<rparr>"

definition ex_slack_with ::
  "string list \<Rightarrow> raw_message list \<Rightarrow> raw_message list \<Rightarrow> slack_client" where
  "ex_slack_with members msgs channel_msgs =
     \<lparr>open_conversation = (\<lambda>us. ex_response),
      send_messsage = (\<lambda>m c. ex_response),
      list_channels = Some [(''C1'', ''general'')],
      check_ongoing_dms = Some [''D1''],
      get_channel_members = (\<lambda>c. if c = ''D1'' then members else [''UA'', ''UB'']),
      read = (\<lambda>c. if c = ''D1''
                  then \<lparr>resp_error = None, resp_messages = Some msgs\<rparr>
                  else \<lparr>resp_error = None, resp_messages = Some channel_msgs\<rparr>),
      create_channel = (\<lambda>n. ex_response),
      add_user_to_channel = (\<lambda>c us. ex_response)\<rparr>"

definition ex_slack :: "string list \<Rightarrow> raw_message list \<Rightarrow> slack_client" where
  "ex_slack members msgs = ex_slack_with members msgs []"

text \<open>
  A backend record of the examples. The timestamps used are whole seconds, or whole
  seconds and a quarter or three quarters: numbers a double holds exactly and whose
  microseconds are whole, so the float the source computes from the string is the number
  the string spells, and that number is given as \<open>raw_seconds\<close>.
\<close>

definition ex_raw :: "string \<Rightarrow> string \<Rightarrow> string \<Rightarrow> real \<Rightarrow> raw_message" where
  "ex_raw u t s x = \<lparr>raw_user = u, raw_text = t, raw_ts = s, raw_seconds = Inr x\<rparr>"

section \<open>Basic facts about the registry and the ledger\<close>

lemma get_agent_put_agent:
  "get_agent (put_agent reg n a) m = (if m = n then Inr a else get_agent reg m)"
  by (simp add: get_agent_def put_agent_def update_conv')

lemma agent_exists_get_agent:
  "agent_exists reg n \<longleftrightarrow> (\<exists>a. get_agent reg n = Inr a)"
  by (auto simp: agent_exists_def get_agent_def split: option.splits)

lemma update_agent_read_messages_ok:
  assumes "get_agent reg an = Inr a"
  shows "\<exists>reg'. update_agent_read_messages reg an cid msgs = Inr reg'"
  using assms by (simp add: update_agent_read_messages_def)

lemma ledger_update_agent_read_messages:
  assumes "update_agent_read_messages reg an cid msgs = Inr reg'"
  shows "ledger reg' bn did =
           (if bn = an \<and> did = cid
            then ledger reg an cid @ filter (\<lambda>m. m \<notin> set (ledger reg an cid)) msgs
            else ledger reg bn did)"
proof -
  from assms obtain a where a: "get_agent reg an = Inr a"
    and reg': "reg' = put_agent reg an
                (a\<lparr>read_messages := (read_messages a)
                     (cid \<mapsto> ledger_of a cid @
                              filter (\<lambda>m. m \<notin> set (ledger_of a cid)) msgs)\<rparr>)"
    by (auto simp: update_agent_read_messages_def split: sum.splits)
  show ?thesis
  proof (cases "bn = an")
    case True
    then show ?thesis
      by (simp add: reg' ledger_def get_agent_put_agent a ledger_of_def)
  next
    case False
    then show ?thesis
      by (simp add: reg' ledger_def get_agent_put_agent)
  qed
qed

lemma only_show_new_messages_ledger:
  assumes "get_agent reg an = Inr a"
  shows "only_show_new_messages reg an cid msgs =
           Inr (filter (\<lambda>m. m \<notin> set (ledger reg an cid)) msgs)"
  using assms by (simp add: only_show_new_messages_def ledger_def)

lemma get_agent_update_agent_read_messages:
  assumes "update_agent_read_messages reg an cid msgs = Inr reg'"
  shows "\<exists>a'. get_agent reg' an = Inr a'"
  using assms
  by (auto simp: update_agent_read_messages_def get_agent_put_agent split: sum.splits)

lemma put_agent_put_agent: "put_agent (put_agent reg n a) n b = put_agent reg n b"
  by (simp add: put_agent_def)

lemma put_agent_same: "get_agent reg n = Inr a \<Longrightarrow> put_agent reg n a = reg"
  by (auto simp: put_agent_def get_agent_def update_triv split: option.splits)

lemma put_agent_fields:
  "worlds (put_agent reg n a) = worlds reg"
  "humans (put_agent reg n a) = humans reg"
  "registered_channels (put_agent reg n a) = registered_channels reg"
  "always_add_users (put_agent reg n a) = always_add_users reg"
  by (simp_all add: put_agent_def)

lemma find_id_update:
  assumes "map_of xs n = Some a" and "app_slack_id a' = app_slack_id a"
  shows "map_option fst (find (\<lambda>(k, v). app_slack_id v = i) (AList.update n a' xs))
         = map_option fst (find (\<lambda>(k, v). app_slack_id v = i) xs)"
  using assms by (induction xs) (auto split: if_splits)

lemma keys_update:
  assumes "map_of xs n = Some a"
  shows "map fst (AList.update n a' xs) = map fst xs"
  using assms by (induction xs) (auto split: if_splits)

lemma agent_local_refl: "get_agent reg n = Inr a \<Longrightarrow> agent_local reg n reg"
  unfolding agent_local_def by (metis put_agent_same)

lemma agent_local_trans:
  assumes "agent_local r1 n r2" and "agent_local r2 n r3"
  shows "agent_local r1 n r3"
  using assms unfolding agent_local_def
  by (auto simp: get_agent_put_agent put_agent_put_agent)

lemma agent_local_frame:
  assumes "agent_local reg n reg'"
  shows "worlds reg' = worlds reg" "humans reg' = humans reg"
    "registered_channels reg' = registered_channels reg"
    "always_add_users reg' = always_add_users reg"
    "get_agent_name_from_id reg' = get_agent_name_from_id reg"
    "get_all_agent_names reg' = get_all_agent_names reg"
    "get_world reg' = get_world reg"
    "get_human_name_from_id reg' = get_human_name_from_id reg"
proof -
  from assms obtain a a' where a: "get_agent reg n = Inr a" and r: "reg' = put_agent reg n a'"
    and id: "app_slack_id a' = app_slack_id a"
    unfolding agent_local_def by blast
  from a have m: "map_of (agents reg) n = Some a"
    by (auto simp: get_agent_def split: option.splits)
  show "worlds reg' = worlds reg" "humans reg' = humans reg"
    "registered_channels reg' = registered_channels reg"
    "always_add_users reg' = always_add_users reg"
    by (simp_all add: r put_agent_fields)
  show "get_agent_name_from_id reg' = get_agent_name_from_id reg"
    by (rule ext) (simp add: get_agent_name_from_id_def r put_agent_def find_id_update[OF m id])
  show "get_all_agent_names reg' = get_all_agent_names reg"
    by (simp add: get_all_agent_names_def r put_agent_def keys_update[OF m])
  show "get_world reg' = get_world reg"
    by (rule ext) (simp add: get_world_def r put_agent_fields)
  show "get_human_name_from_id reg' = get_human_name_from_id reg"
    by (rule ext) (simp add: get_human_name_from_id_def r put_agent_fields)
qed

lemma agent_local_get_agent:
  assumes "agent_local reg n reg'" and "get_agent reg n = Inr a"
  shows "\<exists>a'. get_agent reg' n = Inr a' \<and> world_name a' = world_name a
           \<and> app_slack_id a' = app_slack_id a"
  using assms unfolding agent_local_def by (auto simp: get_agent_put_agent)

lemma agent_local_other:
  assumes "agent_local reg n reg'" and "m \<noteq> n"
  shows "get_agent reg' m = get_agent reg m"
  using assms unfolding agent_local_def by (auto simp: get_agent_put_agent)

lemma agent_local_exists:
  assumes "agent_local reg n reg'"
  shows "agent_exists reg' m = agent_exists reg m"
  using assms unfolding agent_local_def
  by (auto simp: agent_exists_get_agent get_agent_put_agent split: if_splits)

lemma agent_local_update_agent_read_messages:
  assumes "update_agent_read_messages reg n cid msgs = Inr reg'"
  shows "agent_local reg n reg'"
  using assms unfolding agent_local_def update_agent_read_messages_def
  by (auto split: sum.splits)

lemma agent_local_update_channels:
  assumes "update_channels reg sl n = Inr reg'"
  shows "agent_local reg n reg'"
  using assms unfolding agent_local_def update_channels_def
  by (auto split: sum.splits)

lemma walk_ongoing_dms_cong:
  assumes "always_add_users reg' = always_add_users reg"
  shows "walk_ongoing_dms reg' sl cids acc = walk_ongoing_dms reg sl cids acc"
  using assms
  by (induction reg sl cids acc rule: walk_ongoing_dms.induct)
     (simp_all add: get_always_add_users_def Let_def)

lemma resolve_channels_cong:
  assumes "always_add_users reg' = always_add_users reg"
  shows "resolve_channels reg' sl = resolve_channels reg sl"
  by (simp add: resolve_channels_def walk_ongoing_dms_cong[OF assms])

lemma walk_ongoing_dms_inv:
  assumes "slack_id ` set all_channels \<subseteq> existing" and "distinct (map slack_id all_channels)"
    and "walk_ongoing_dms reg sl cids (all_channels, existing) = (all', existing')"
  shows "slack_id ` set all' \<subseteq> existing' \<and> distinct (map slack_id all')"
  using assms
proof (induction cids arbitrary: all_channels existing)
  case Nil
  then show ?case by simp
next
  case (Cons cid cids)
  show ?case
  proof (cases "cid \<in> existing")
    case True
    with Cons.prems have "walk_ongoing_dms reg sl cids (all_channels, existing) = (all', existing')"
      by simp
    from Cons.IH[OF Cons.prems(1,2) this] show ?thesis .
  next
    case False
    let ?c = "Channel cid (join '','' (filter (\<lambda>member. member \<notin> set (get_always_add_users reg))
                         (get_channel_members sl cid)))"
    from False Cons.prems(3)
    have w: "walk_ongoing_dms reg sl cids (all_channels @ [?c], insert cid existing) = (all', existing')"
      by (simp add: Let_def)
    have 1: "slack_id ` set (all_channels @ [?c]) \<subseteq> insert cid existing"
      using Cons.prems(1) by auto
    have 2: "distinct (map slack_id (all_channels @ [?c]))"
      using Cons.prems(1,2) False by auto
    from Cons.IH[OF 1 2 w] show ?thesis .
  qed
qed

lemma walk_channels_inv:
  assumes "slack_id ` set all_channels \<subseteq> existing" and "distinct (map slack_id all_channels)"
    and "walk_channels cs (all_channels, existing) = (all', existing')"
  shows "slack_id ` set all' \<subseteq> existing' \<and> distinct (map slack_id all')"
  using assms
proof (induction cs arbitrary: all_channels existing)
  case Nil
  then show ?case by simp
next
  case (Cons c cs)
  obtain cid cname where c: "c = (cid, cname)" by (cases c)
  show ?case
  proof (cases "cid \<in> existing")
    case True
    with Cons.prems c have "walk_channels cs (all_channels, existing) = (all', existing')"
      by simp
    from Cons.IH[OF Cons.prems(1,2) this] show ?thesis .
  next
    case False
    from False Cons.prems(3) c
    have w: "walk_channels cs (all_channels @ [Channel cid cname], insert cid existing)
               = (all', existing')"
      by simp
    have 1: "slack_id ` set (all_channels @ [Channel cid cname]) \<subseteq> insert cid existing"
      using Cons.prems(1) by auto
    have 2: "distinct (map slack_id (all_channels @ [Channel cid cname]))"
      using Cons.prems(1,2) False by auto
    from Cons.IH[OF 1 2 w] show ?thesis .
  qed
qed

lemma distinct_resolve_channels: "distinct (map slack_id (resolve_channels reg sl))"
proof -
  let ?dms = "case check_ongoing_dms sl of None \<Rightarrow> [] | Some cs \<Rightarrow> cs"
  let ?chs = "case list_channels sl of None \<Rightarrow> [] | Some cs \<Rightarrow> cs"
  obtain a1 e1 where w1: "walk_ongoing_dms reg sl ?dms ([], {}) = (a1, e1)"
    by (cases "walk_ongoing_dms reg sl ?dms ([], {})")
  obtain a2 e2 where w2: "walk_channels ?chs (a1, e1) = (a2, e2)"
    by (cases "walk_channels ?chs (a1, e1)")
  have i1: "slack_id ` set a1 \<subseteq> e1 \<and> distinct (map slack_id a1)"
    by (rule walk_ongoing_dms_inv[OF _ _ w1]) simp_all
  have "slack_id ` set a2 \<subseteq> e2 \<and> distinct (map slack_id a2)"
    using i1 by (intro walk_channels_inv[OF _ _ w2]) simp_all
  then show ?thesis
    by (simp add: resolve_channels_def w1 w2)
qed

lemma update_channels_result:
  assumes "update_channels reg sl an = Inr reg'"
  shows "\<exists>a. get_agent reg an = Inr a
           \<and> reg' = put_agent reg an (a\<lparr>channels := resolve_channels reg sl\<rparr>)"
  using assms by (auto simp: update_channels_def split: sum.splits)

lemma ledger_update_channels:
  assumes "update_channels reg sl an = Inr reg'"
  shows "ledger reg' bn cid = ledger reg bn cid"
proof -
  from update_channels_result[OF assms] obtain a where a: "get_agent reg an = Inr a"
    and r: "reg' = put_agent reg an (a\<lparr>channels := resolve_channels reg sl\<rparr>)" by blast
  show ?thesis
    by (cases "bn = an") (simp_all add: r ledger_def get_agent_put_agent a ledger_of_def)
qed

text \<open>
  C8. The channel membership resolver is idempotent: against unchanged backend listings a
  second run of \<^verbatim>\<open>update_channels\<close> leaves the registry, and so the agent's channel
  list, as the first run left it. The list holds every channel id once, so a named
  channel whose id was already seen as a direct-message channel is not added again.
\<close>

theorem update_channels_idempotent:
  assumes "update_channels reg sl an = Inr reg'"
  shows "update_channels reg' sl an = Inr reg'
         \<and> (\<exists>a'. get_agent reg' an = Inr a'
                \<and> channels a' = resolve_channels reg sl
                \<and> distinct (map slack_id (channels a')))"
proof -
  from update_channels_result[OF assms] obtain a where a: "get_agent reg an = Inr a"
    and r: "reg' = put_agent reg an (a\<lparr>channels := resolve_channels reg sl\<rparr>)" by blast
  let ?a' = "a\<lparr>channels := resolve_channels reg sl\<rparr>"
  have g: "get_agent reg' an = Inr ?a'"
    by (simp add: r get_agent_put_agent)
  have same: "resolve_channels reg' sl = resolve_channels reg sl"
    by (rule resolve_channels_cong) (simp add: r put_agent_fields)
  have "update_channels reg' sl an = Inr (put_agent reg' an (?a'\<lparr>channels := resolve_channels reg' sl\<rparr>))"
    by (simp add: update_channels_def g)
  also have "put_agent reg' an (?a'\<lparr>channels := resolve_channels reg' sl\<rparr>) = reg'"
    using same by (simp add: r put_agent_put_agent)
  finally have 1: "update_channels reg' sl an = Inr reg'" .
  have 2: "channels ?a' = resolve_channels reg sl" by simp
  have 3: "distinct (map slack_id (channels ?a'))"
    by (simp add: distinct_resolve_channels)
  from 1 g 2 3 show ?thesis by blast
qed

lemmas ex_defs = ex_reg_def ex_agent_def ex_slack_def ex_slack_with_def ex_response_def
  ex_raw_def
lemmas reg_defs = get_agent_def agent_exists_def get_all_agent_names_def get_world_def
  get_world_starttime_of_agent_def get_humans_def get_human_names_def human_exists_def
  get_human_def get_channel_def get_agent_name_from_id_def get_human_name_from_id_def
  get_always_add_users_def put_agent_def register_channel_def

theorem update_channels_idempotent_witness:
  "update_channels ex_reg (ex_slack [''UA'', ''UB'', ''UH''] []) ''bob''
     = Inr (put_agent ex_reg ''bob''
             ((ex_agent ''W'' ''UB'')\<lparr>channels := [Channel ''D1'' ''UA,UB'', Channel ''C1'' ''general'']\<rparr>))
   \<and> update_channels
       (put_agent ex_reg ''bob''
          ((ex_agent ''W'' ''UB'')\<lparr>channels := [Channel ''D1'' ''UA,UB'', Channel ''C1'' ''general'']\<rparr>))
       (ex_slack [''UA'', ''UB'', ''UH''] []) ''bob''
     = Inr (put_agent ex_reg ''bob''
             ((ex_agent ''W'' ''UB'')\<lparr>channels := [Channel ''D1'' ''UA,UB'', Channel ''C1'' ''general'']\<rparr>))"
proof -
  have h: "update_channels ex_reg (ex_slack [''UA'', ''UB'', ''UH''] []) ''bob''
     = Inr (put_agent ex_reg ''bob''
             ((ex_agent ''W'' ''UB'')\<lparr>channels := [Channel ''D1'' ''UA,UB'', Channel ''C1'' ''general'']\<rparr>))"
    by (simp add: update_channels_def resolve_channels_def ex_defs reg_defs)
  from update_channels_idempotent[OF h] h show ?thesis by simp
qed

text \<open>
  C2. Dedup idempotence: for a registered agent, any channel and any candidate list,
  computing the delta (\<^verbatim>\<open>only_show_new_messages\<close>) and recording it
  (\<^verbatim>\<open>_update_agent_read_messages\<close>) leaves a ledger against which the delta of the
  same candidate list is empty; the same holds when the whole candidate list is recorded.
\<close>

theorem dedup_idempotence:
  assumes "get_agent reg an = Inr a"
  shows "\<exists>new reg' reg''.
           only_show_new_messages reg an cid msgs = Inr new
         \<and> update_agent_read_messages reg an cid new = Inr reg'
         \<and> only_show_new_messages reg' an cid msgs = Inr []
         \<and> update_agent_read_messages reg an cid msgs = Inr reg''
         \<and> only_show_new_messages reg'' an cid msgs = Inr []"
proof -
  let ?L = "ledger reg an cid"
  let ?new = "filter (\<lambda>m. m \<notin> set ?L) msgs"
  have d: "only_show_new_messages reg an cid msgs = Inr ?new"
    by (rule only_show_new_messages_ledger[OF assms])
  from update_agent_read_messages_ok[OF assms] obtain reg' where
    u: "update_agent_read_messages reg an cid ?new = Inr reg'" by blast
  from update_agent_read_messages_ok[OF assms] obtain reg'' where
    u2: "update_agent_read_messages reg an cid msgs = Inr reg''" by blast
  from get_agent_update_agent_read_messages[OF u] obtain a' where a': "get_agent reg' an = Inr a'"
    by blast
  from get_agent_update_agent_read_messages[OF u2] obtain a'' where a'': "get_agent reg'' an = Inr a''"
    by blast
  have l1: "ledger reg' an cid = ?L @ ?new"
    by (simp add: ledger_update_agent_read_messages[OF u] filter_id_conv)
  have l2: "ledger reg'' an cid = ?L @ ?new"
    by (simp add: ledger_update_agent_read_messages[OF u2])
  have e1: "only_show_new_messages reg' an cid msgs = Inr []"
    by (simp add: only_show_new_messages_ledger[OF a'] l1 filter_empty_conv)
  have e2: "only_show_new_messages reg'' an cid msgs = Inr []"
    by (simp add: only_show_new_messages_ledger[OF a''] l2 filter_empty_conv)
  from d u e1 u2 e2 show ?thesis by blast
qed

theorem dedup_idempotence_witness:
  "get_agent ex_reg ''bob'' = Inr (ex_agent ''W'' ''UB'')
   \<and> (\<exists>new reg'.
         only_show_new_messages ex_reg ''bob'' ''D1''
           [Message ''hello'' ''D1'' ''UA'' (TsStr ''1005'') (Some ''alice'')] = Inr new
       \<and> update_agent_read_messages ex_reg ''bob'' ''D1'' new = Inr reg'
       \<and> only_show_new_messages reg' ''bob'' ''D1''
           [Message ''hello'' ''D1'' ''UA'' (TsStr ''1005'') (Some ''alice'')] = Inr [])"
proof -
  have h: "get_agent ex_reg ''bob'' = Inr (ex_agent ''W'' ''UB'')"
    by (simp add: get_agent_def ex_reg_def)
  from dedup_idempotence[OF h, of "''D1''"
      "[Message ''hello'' ''D1'' ''UA'' (TsStr ''1005'') (Some ''alice'')]"] h
  show ?thesis by blast
qed

lemmas ts_defs = split_dot_0_def
lemmas tool_defs = call_tool_def tools_def attempt_def param_def Let_def
  check_new_messages_def check_channel_def channel_ids_with_agent_def
  response_messages_def new_message_def dm_message_def channel_message_def
  sender_display_name_def only_show_new_messages_def update_agent_read_messages_def
  ledger_of_def ledger_def update_channels_def resolve_channels_def read_dm_def find_dm_channel_def
  read_channel_def send_message_to_human_def send_direct_message_def send_message_to_channel_def

lemma filter_ts_Inr:
  assumes "filter_ts P ms = Inr kept"
  shows "kept = filter (\<lambda>r. \<exists>t. sent_at r t \<and> P t) ms \<and> (\<forall>r \<in> set ms. \<exists>t. sent_at r t)"
  using assms
proof (induction ms arbitrary: kept)
  case Nil
  then show ?case by simp
next
  case (Cons m ms)
  from Cons.prems obtain t r where t: "raw_seconds m = Inr t"
    and r: "filter_ts P ms = Inr r" and k: "kept = (if P t then m # r else r)"
    by (auto split: sum.splits)
  from Cons.IH[OF r] have ih: "r = filter (\<lambda>r. \<exists>t. sent_at r t \<and> P t) ms"
    and all: "\<forall>r \<in> set ms. \<exists>t. sent_at r t" by auto
  have "(\<exists>t'. sent_at m t' \<and> P t') = P t"
    using t by (auto simp: sent_at_def)
  with k ih all t show ?case by (auto simp: sent_at_def)
qed

lemma filter_ts_ok:
  assumes "\<forall>r \<in> set ms. \<exists>t. sent_at r t"
  shows "\<exists>kept. filter_ts P ms = Inr kept"
  using assms by (induction ms) (auto simp: sent_at_def)

lemma ledger_extends_refl [simp]: "ledger_extends P reg reg"
  by (simp add: ledger_extends_def)

lemma ledger_extends_trans:
  assumes "ledger_extends P r1 r2" and "ledger_extends P r2 r3"
  shows "ledger_extends P r1 r3"
  unfolding ledger_extends_def
proof (intro allI)
  fix an cid
  from assms(1) obtain xs where 1: "ledger r2 an cid = ledger r1 an cid @ xs" "\<forall>m \<in> set xs. P m"
    unfolding ledger_extends_def by blast
  from assms(2) obtain ys where 2: "ledger r3 an cid = ledger r2 an cid @ ys" "\<forall>m \<in> set ys. P m"
    unfolding ledger_extends_def by blast
  from 1 2 have "ledger r3 an cid = ledger r1 an cid @ (xs @ ys) \<and> (\<forall>m \<in> set (xs @ ys). P m)"
    by auto
  then show "\<exists>ms. ledger r3 an cid = ledger r1 an cid @ ms \<and> (\<forall>m \<in> set ms. P m)" by blast
qed

lemma ledger_extends_mono:
  assumes "ledger_extends P r1 r2" and "\<And>m. P m \<Longrightarrow> Q m"
  shows "ledger_extends Q r1 r2"
  using assms unfolding ledger_extends_def by meson

lemma ledger_extends_update_channels:
  assumes "update_channels reg sl an = Inr reg'"
  shows "ledger_extends P reg reg'"
  by (simp add: ledger_extends_def ledger_update_channels[OF assms])

lemma ledger_extends_update_agent_read_messages:
  assumes "update_agent_read_messages reg an cid msgs = Inr reg'" and "\<forall>m \<in> set msgs. P m"
  shows "ledger_extends P reg reg'"
  unfolding ledger_extends_def
  using assms(2) by (auto simp: ledger_update_agent_read_messages[OF assms(1)])

lemma ledger_register_channel:
  assumes "register_channel reg an cname cid = Inr reg'"
  shows "ledger reg' bn did = ledger reg bn did"
  using assms
  by (auto simp: register_channel_def ledger_def get_agent_def split: sum.splits option.splits)

lemma ledger_extends_register_channel:
  assumes "register_channel reg an cname cid = Inr reg'"
  shows "ledger_extends P reg reg'"
  by (simp add: ledger_extends_def ledger_register_channel[OF assms])

lemma attempt_extends:
  assumes "ledger_extends P reg0 reg"
    and "\<And>v. x = Inr v \<Longrightarrow> ledger_extends P reg0 (snd (k v))"
  shows "ledger_extends P reg0 (snd (attempt x reg k))"
  using assms by (cases x) (simp_all add: attempt_def)

lemma param_Inr [simp]: "param parameters k = Inr v \<longleftrightarrow> parameters k = Some v"
  by (simp add: param_def split: option.splits)

lemma str_stamped_messages [simp]:
  "str_stamped (channel_message reg cid r)" "str_stamped (dm_message reg cid r)"
  "str_stamped (new_message reg cid r)"
  by (simp_all add: str_stamped_def channel_message_def dm_message_def new_message_def)

lemma ledger_extends_uc_ua:
  assumes "update_channels reg sl an = Inr r1"
    and "update_agent_read_messages r1 bn cid msgs = Inr r2" and "\<forall>m \<in> set msgs. P m"
  shows "ledger_extends P reg r2"
  using ledger_extends_trans[OF ledger_extends_update_channels[OF assms(1)]
      ledger_extends_update_agent_read_messages[OF assms(2,3)]] .

lemma ledger_extends_ua_uc:
  assumes "update_agent_read_messages reg bn cid msgs = Inr r1" and "\<forall>m \<in> set msgs. P m"
    and "update_channels r1 sl an = Inr r2"
  shows "ledger_extends P reg r2"
  using ledger_extends_trans[OF ledger_extends_update_agent_read_messages[OF assms(1,2)]
      ledger_extends_update_channels[OF assms(3)]] .

lemmas ledger_extends_intros =
  ledger_extends_update_channels ledger_extends_register_channel
  ledger_extends_update_agent_read_messages ledger_extends_uc_ua ledger_extends_ua_uc

lemma send_direct_message_extends:
  "ledger_extends (self_record now parameters) reg (snd (send_direct_message reg sl now parameters))"
  unfolding send_direct_message_def Let_def
  apply (intro attempt_extends ledger_extends_refl | simp | (rule conjI impI)+)+
  apply (auto intro: ledger_extends_intros simp: self_record_def channel_self_record_def)
  done

lemma send_message_to_channel_extends:
  "ledger_extends (channel_self_record now parameters) reg (snd (send_message_to_channel reg sl now parameters))"
  unfolding send_message_to_channel_def Let_def
  apply (intro attempt_extends ledger_extends_refl | simp | (rule conjI impI)+)+
  apply (auto intro: ledger_extends_intros simp: self_record_def channel_self_record_def)
  done

lemma send_message_to_human_extends:
  "ledger_extends (self_record now parameters) reg (snd (send_message_to_human reg sl now parameters))"
  unfolding send_message_to_human_def Let_def
  apply (intro attempt_extends ledger_extends_refl | simp | (rule conjI impI)+)+
  apply (auto intro: ledger_extends_intros simp: self_record_def channel_self_record_def)
  done

lemma ledger_extends_record_str:
  assumes "update_agent_read_messages reg an cid msgs = Inr reg'"
    and "msgs = map (channel_message rg c) xs \<or> msgs = map (dm_message rg c) xs
         \<or> msgs = map (new_message rg c) xs
         \<or> msgs = filter Q (map (new_message rg c) xs)"
  shows "ledger_extends str_stamped reg reg'"
  using assms(2) by (intro ledger_extends_update_agent_read_messages[OF assms(1)]) auto

lemma read_channel_extends:
  "ledger_extends str_stamped reg (snd (read_channel reg sl parameters))"
  unfolding read_channel_def Let_def
  apply (intro attempt_extends ledger_extends_refl | simp | (rule conjI impI)+)+
  apply (auto intro: ledger_extends_record_str)
  done

lemma read_dm_extends:
  "ledger_extends str_stamped reg (snd (read_dm reg sl parameters))"
  unfolding read_dm_def Let_def
  apply (intro attempt_extends ledger_extends_refl
         | simp split: option.split list.split | (rule conjI impI allI)+)+
  apply (auto intro!: attempt_extends intro: ledger_extends_record_str)
  done

lemma check_channel_extends:
  "ledger_extends str_stamped reg (snd (check_channel reg sl yn wsd cid))"
  unfolding check_channel_def Let_def
  by (auto simp: only_show_new_messages_def Let_def split: sum.splits
           intro: ledger_extends_record_str)

lemma check_loop_extends:
  "ledger_extends str_stamped reg (snd (check_loop reg sl yn wsd cids acc))"
proof (induction cids arbitrary: reg acc)
  case Nil
  show ?case by simp
next
  case (Cons cid cids)
  obtain res reg1 where c: "check_channel reg sl yn wsd cid = (res, reg1)"
    by (cases "check_channel reg sl yn wsd cid")
  have e: "ledger_extends str_stamped reg reg1"
    using check_channel_extends[of reg sl yn wsd cid] by (simp add: c)
  show ?case
  proof (cases res)
    case (Inl err)
    with c e show ?thesis by simp
  next
    case (Inr r)
    show ?thesis
    proof (cases r)
      case None
      with Inr c show ?thesis
        using ledger_extends_trans[OF e Cons.IH[of reg1 acc]] by simp
    next
      case (Some new)
      with Inr c show ?thesis
        using ledger_extends_trans[OF e Cons.IH[of reg1 "acc @ [new]"]] by simp
    qed
  qed
qed

lemma check_loop_outcome_extends:
  assumes "update_channels reg sl an = Inr reg1"
  shows "ledger_extends str_stamped reg
           (snd (case check_loop reg1 sl yn wsd cids [] of
                   (Inl e, reg2) \<Rightarrow> (Inl e, reg2)
                 | (Inr all_new_messages, reg2) \<Rightarrow> (Inr (RNewMessages all_new_messages), reg2)))"
proof -
  obtain res reg2 where c: "check_loop reg1 sl yn wsd cids [] = (res, reg2)"
    by (cases "check_loop reg1 sl yn wsd cids []")
  have "ledger_extends str_stamped reg reg2"
    using ledger_extends_trans[OF ledger_extends_update_channels[OF assms]
        check_loop_extends[of reg1 sl yn wsd cids "[]"]]
    by (simp add: c)
  then show ?thesis
    by (cases res) (simp_all add: c)
qed

lemma check_new_messages_extends:
  "ledger_extends str_stamped reg (snd (check_new_messages reg sl parameters))"
  unfolding check_new_messages_def Let_def
  apply (intro attempt_extends ledger_extends_refl check_loop_outcome_extends
         | simp | (rule conjI impI)+ | erule ledger_extends_update_channels)+
  done


lemma list_channels_tool_extends:
  "ledger_extends P reg (snd (list_channels_tool reg sl parameters))"
  unfolding list_channels_tool_def Let_def
  by (intro attempt_extends ledger_extends_refl
      | simp split: option.split | (rule conjI impI allI)+)+

lemma check_ongoing_dms_tool_extends:
  "ledger_extends P reg (snd (check_ongoing_dms_tool reg sl parameters))"
  unfolding check_ongoing_dms_tool_def Let_def
  by (intro attempt_extends ledger_extends_refl | simp | (rule conjI impI allI)+)+

lemma get_human_info_extends: "ledger_extends P reg (snd (get_human_info reg))"
  by (simp add: get_human_info_def)

lemma create_channel_tool_extends:
  "ledger_extends P reg (snd (create_channel_tool reg sl parameters))"
  unfolding create_channel_tool_def Let_def
  by (intro attempt_extends ledger_extends_refl
      | simp | (rule conjI impI allI)+ | erule ledger_extends_register_channel)+

lemma add_member_to_channel_extends:
  "ledger_extends P reg (snd (add_member_to_channel reg sl parameters))"
  unfolding add_member_to_channel_def Let_def
  by (intro attempt_extends ledger_extends_refl | simp | (rule conjI impI allI)+)+

lemma tools_extend_any:
  "ledger_extends (\<lambda>m. True) reg (snd (send_direct_message reg sl now parameters))"
  "ledger_extends (\<lambda>m. True) reg (snd (send_message_to_channel reg sl now parameters))"
  "ledger_extends (\<lambda>m. True) reg (snd (send_message_to_human reg sl now parameters))"
  "ledger_extends (\<lambda>m. True) reg (snd (read_channel reg sl parameters))"
  "ledger_extends (\<lambda>m. True) reg (snd (read_dm reg sl parameters))"
  "ledger_extends (\<lambda>m. True) reg (snd (check_new_messages reg sl parameters))"
  by (rule ledger_extends_mono[OF send_direct_message_extends] 
           ledger_extends_mono[OF send_message_to_channel_extends]
           ledger_extends_mono[OF send_message_to_human_extends]
           ledger_extends_mono[OF read_channel_extends]
           ledger_extends_mono[OF read_dm_extends]
           ledger_extends_mono[OF check_new_messages_extends], simp)+

lemma ledger_extends_if:
  assumes "c \<Longrightarrow> ledger_extends P reg (snd a)" and "\<not> c \<Longrightarrow> ledger_extends P reg (snd b)"
  shows "ledger_extends P reg (snd (if c then a else b))"
  using assms by simp

lemma call_tool_extends:
  "ledger_extends (\<lambda>m. True) reg (snd (call_tool reg sl now tool_name parameters))"
  unfolding call_tool_def
  by (intro ledger_extends_if tools_extend_any list_channels_tool_extends
        check_ongoing_dms_tool_extends get_human_info_extends create_channel_tool_extends
        add_member_to_channel_extends) simp_all

lemma run_extends: "ledger_extends (\<lambda>m. True) reg (run reg calls)"
proof (induction calls arbitrary: reg)
  case Nil
  show ?case by simp
next
  case (Cons c calls)
  obtain sl now tool_name parameters where c: "c = (sl, now, tool_name, parameters)"
    by (cases c)
  show ?case
    using ledger_extends_trans[OF call_tool_extends Cons.IH] by (simp add: c)
qed

lemma distinct_record:
  assumes "distinct xs" and "distinct ys"
  shows "distinct (xs @ filter (\<lambda>m. m \<notin> set xs) ys)"
  using assms by auto

text \<open>
  C4 (amended). The ledger only grows: over any run of operations every ledger is the
  ledger before with messages appended, so its length does not decrease. Recording
  appends exactly the candidates that were not in the ledger before the call; recording
  the same list again adds nothing; and a ledger without duplicates stays without
  duplicates when the recorded list holds no two equal messages.
\<close>

theorem ledger_append_only:
  "(\<exists>ms. ledger (run reg calls) an cid = ledger reg an cid @ ms)
   \<and> length (ledger reg an cid) \<le> length (ledger (run reg calls) an cid)
   \<and> (update_agent_read_messages reg an cid msgs = Inr reg' \<longrightarrow>
         ledger reg' an cid
           = ledger reg an cid @ filter (\<lambda>m. m \<notin> set (ledger reg an cid)) msgs
       \<and> (distinct (ledger reg an cid) \<and> distinct msgs \<longrightarrow> distinct (ledger reg' an cid))
       \<and> (\<exists>reg''. update_agent_read_messages reg' an cid msgs = Inr reg''
                  \<and> ledger reg'' an cid = ledger reg' an cid))"
proof -
  from run_extends[of reg calls] obtain ms where
    ms: "ledger (run reg calls) an cid = ledger reg an cid @ ms"
    unfolding ledger_extends_def by blast
  have 1: "\<exists>ms. ledger (run reg calls) an cid = ledger reg an cid @ ms"
    using ms by blast
  have 2: "length (ledger reg an cid) \<le> length (ledger (run reg calls) an cid)"
    using ms by simp
  have 3: "ledger reg' an cid
             = ledger reg an cid @ filter (\<lambda>m. m \<notin> set (ledger reg an cid)) msgs
           \<and> (distinct (ledger reg an cid) \<and> distinct msgs \<longrightarrow> distinct (ledger reg' an cid))
           \<and> (\<exists>reg''. update_agent_read_messages reg' an cid msgs = Inr reg''
                  \<and> ledger reg'' an cid = ledger reg' an cid)"
    if u: "update_agent_read_messages reg an cid msgs = Inr reg'"
  proof -
    have l: "ledger reg' an cid
               = ledger reg an cid @ filter (\<lambda>m. m \<notin> set (ledger reg an cid)) msgs"
      by (simp add: ledger_update_agent_read_messages[OF u])
    have d: "distinct (ledger reg an cid) \<and> distinct msgs \<longrightarrow> distinct (ledger reg' an cid)"
      unfolding l using distinct_record by blast
    from get_agent_update_agent_read_messages[OF u] obtain a' where
      "get_agent reg' an = Inr a'" by blast
    from update_agent_read_messages_ok[OF this] obtain reg'' where
      u2: "update_agent_read_messages reg' an cid msgs = Inr reg''" by blast
    have "filter (\<lambda>m. m \<notin> set (ledger reg' an cid)) msgs = []"
      unfolding l by (auto simp: filter_empty_conv)
    then have "ledger reg'' an cid = ledger reg' an cid"
      by (simp add: ledger_update_agent_read_messages[OF u2])
    with l d u2 show ?thesis by blast
  qed
  from 1 2 3 show ?thesis by blast
qed

theorem ledger_append_only_witness:
  "update_agent_read_messages ex_reg ''bob'' ''D1''
       [Message ''hello'' ''D1'' ''UA'' (TsStr ''1005'') (Some ''alice'')]
     = Inr (put_agent ex_reg ''bob''
             ((ex_agent ''W'' ''UB'')\<lparr>read_messages :=
                [''D1'' \<mapsto> [Message ''hello'' ''D1'' ''UA'' (TsStr ''1005'') (Some ''alice'')]]\<rparr>))
   \<and> distinct (ledger ex_reg ''bob'' ''D1'')
   \<and> distinct [Message ''hello'' ''D1'' ''UA'' (TsStr ''1005'') (Some ''alice'')]
   \<and> ledger (put_agent ex_reg ''bob''
             ((ex_agent ''W'' ''UB'')\<lparr>read_messages :=
                [''D1'' \<mapsto> [Message ''hello'' ''D1'' ''UA'' (TsStr ''1005'') (Some ''alice'')]]\<rparr>))
        ''bob'' ''D1''
     = [Message ''hello'' ''D1'' ''UA'' (TsStr ''1005'') (Some ''alice'')]
   \<and> length (ledger ex_reg ''bob'' ''D1'')
       \<le> length (ledger (run ex_reg
             [(ex_slack [''UA'', ''UB'', ''UH''] [ex_raw ''UA'' ''hello'' ''1005.000000'' 1005],
               1006, ''check_new_messages'', [''your_name'' \<mapsto> ''bob''])]) ''bob'' ''D1'')"
proof -
  let ?m = "Message ''hello'' ''D1'' ''UA'' (TsStr ''1005'') (Some ''alice'')"
  let ?r = "put_agent ex_reg ''bob'' ((ex_agent ''W'' ''UB'')\<lparr>read_messages := [''D1'' \<mapsto> [?m]]\<rparr>)"
  have h: "update_agent_read_messages ex_reg ''bob'' ''D1'' [?m] = Inr ?r"
    by (simp add: update_agent_read_messages_def ledger_of_def ex_defs reg_defs)
  have e: "ledger ex_reg ''bob'' ''D1'' = []"
    by (simp add: ledger_def ledger_of_def ex_defs reg_defs)
  from ledger_append_only[of ex_reg
      "[(ex_slack [''UA'', ''UB'', ''UH''] [ex_raw ''UA'' ''hello'' ''1005.000000'' 1005],
               1006, ''check_new_messages'', [''your_name'' \<mapsto> ''bob''])]"
      "''bob''" "''D1''" "[?m]" ?r] h e
  show ?thesis by simp
qed

theorem ledger_duplicates_counterexample:
  "ledger ex_reg ''bob'' ''D1'' = []
   \<and> ledger (snd (call_tool ex_reg
        (ex_slack [''UA'', ''UB'', ''UH'']
           [ex_raw ''UA'' ''ok'' ''1005.250000'' 1005.25, ex_raw ''UA'' ''ok'' ''1005.750000'' 1005.75])
          1006 ''check_new_messages'' [''your_name'' \<mapsto> ''bob''])) ''bob'' ''D1''
     = [Message ''ok'' ''D1'' ''UA'' (TsStr ''1005'') (Some ''alice''),
        Message ''ok'' ''D1'' ''UA'' (TsStr ''1005'') (Some ''alice'')]"
  by (simp add: ex_defs reg_defs tool_defs ts_defs)

lemma self_record_not_str_stamped:
  assumes "self_record now parameters m"
  shows "\<not> str_stamped m"
  using assms by (simp add: self_record_def str_stamped_def)

lemma ledger_extends_str_members:
  assumes "ledger_extends P reg reg'" and "\<And>m. P m \<Longrightarrow> \<not> str_stamped m"
    and "\<forall>m \<in> set msgs. str_stamped m"
  shows "filter (\<lambda>m. m \<notin> set (ledger reg' an cid)) msgs
         = filter (\<lambda>m. m \<notin> set (ledger reg an cid)) msgs"
proof -
  from assms(1) obtain xs where l: "ledger reg' an cid = ledger reg an cid @ xs"
    and p: "\<forall>m \<in> set xs. P m"
    unfolding ledger_extends_def by blast
  have "\<forall>m \<in> set msgs. m \<notin> set xs"
    using p assms(2,3) by blast
  then show ?thesis
    unfolding l by (intro filter_cong refl) auto
qed

lemma channel_self_record_self_record:
  "channel_self_record now parameters m \<Longrightarrow> self_record now parameters m"
  by (simp add: channel_self_record_def)



lemma response_messages_Inr [simp]:
  "response_messages r = Inr ms \<longleftrightarrow> resp_messages r = Some ms"
  by (simp add: response_messages_def split: option.splits)

lemma history_Some: "resp_messages (read sl cid) = Some raw \<Longrightarrow> history sl cid = raw"
  by (simp add: history_def)

lemma read_channel_result:
  assumes "read_channel reg sl parameters = (Inr (RMessages ms), reg')"
  shows "\<exists>yn a w cn ch raw.
           parameters ''your_name'' = Some yn \<and> get_agent reg yn = Inr a
         \<and> get_world reg (world_name a) = Inr w
         \<and> parameters ''channel_name'' = Some cn \<and> get_channel reg cn = Inr ch
         \<and> resp_messages (read sl (slack_id ch)) = Some raw \<and> raw \<noteq> []
         \<and> ms = map (channel_message reg (slack_id ch))
                    (filter (\<lambda>r. \<exists>t. sent_at r t \<and> start_datetime w < t) raw)
         \<and> update_agent_read_messages reg yn (slack_id ch) ms = Inr reg'"
  using assms unfolding read_channel_def attempt_def Let_def
  by (auto split: sum.splits if_splits dest!: filter_ts_Inr)

lemma read_dm_result:
  assumes "read_dm reg sl parameters = (Inr (RMessages ms), reg')"
  shows "\<exists>yn sn a sa wsd chans cid raw.
           parameters ''your_name'' = Some yn \<and> parameters ''sender_name'' = Some sn
         \<and> get_agent reg yn = Inr a \<and> get_agent reg sn = Inr sa
         \<and> get_world_starttime_of_agent reg sn = Inr wsd
         \<and> check_ongoing_dms sl = Some chans
         \<and> find_dm_channel sl (length (get_humans reg) + 2) (app_slack_id sa) (app_slack_id a)
              chans = Inr cid
         \<and> resp_messages (read sl cid) = Some raw
         \<and> ms = map (dm_message reg cid) (filter (\<lambda>r. \<exists>t. sent_at r t \<and> wsd \<le> t) raw)
         \<and> update_agent_read_messages reg yn cid ms = Inr reg'"
  using assms unfolding read_dm_def attempt_def Let_def
  by (auto split: sum.splits if_splits option.splits list.splits dest!: filter_ts_Inr)

lemma read_channel_empty:
  assumes "parameters ''your_name'' = Some yn" and "get_agent reg yn = Inr a"
    and "parameters ''channel_name'' = Some cn" and "get_channel reg cn = Inr ch"
    and "resp_messages (read sl (slack_id ch)) = Some []"
  shows "read_channel reg sl parameters = (Inr (RString not_a_member), reg)"
  using assms
  by (simp add: read_channel_def attempt_def param_def agent_exists_get_agent
        response_messages_def)

lemma update_agent_read_messages_Nil:
  assumes "update_agent_read_messages reg an cid [] = Inr reg'"
  shows "ledger reg' = ledger reg"
  by (intro ext) (simp add: ledger_update_agent_read_messages[OF assms])

lemma read_dm_empty:
  assumes "parameters ''your_name'' = Some yn" and "get_agent reg yn = Inr a"
    and "parameters ''sender_name'' = Some sn" and "get_agent reg sn = Inr sa"
    and "get_world_starttime_of_agent reg sn = Inr wsd"
    and "check_ongoing_dms sl = Some chans"
    and "find_dm_channel sl (length (get_humans reg) + 2) (app_slack_id sa) (app_slack_id a)
           chans = Inr cid"
    and "resp_error (read sl cid) = None \<or> resp_error (read sl cid) = Some []"
    and "resp_messages (read sl cid) = Some []"
  shows "fst (read_dm reg sl parameters) = Inr (RMessages [])
         \<and> ledger (snd (read_dm reg sl parameters)) = ledger reg"
proof -
  from update_agent_read_messages_ok[OF assms(2)] obtain reg' where
    u: "update_agent_read_messages reg yn cid [] = Inr reg'" by blast
  have "read_dm reg sl parameters = (Inr (RMessages []), reg')"
    using assms u
    by (auto simp: read_dm_def attempt_def param_def agent_exists_get_agent
          response_messages_def)
  then show ?thesis
    by (simp add: update_agent_read_messages_Nil[OF u])
qed

text \<open>
  C3 (amended). When a channel read (\<^verbatim>\<open>read_channel\<close>) receives zero messages from
  the backend it returns the literal string "You are not a member of this channel, you
  can't read it." and leaves the registry as it is. A direct-message read
  (\<^verbatim>\<open>read_dm\<close>) that receives zero messages, and no error, from the backend returns
  the empty message list and leaves every ledger as it is.
\<close>

theorem empty_read_outcomes:
  assumes "parameters ''your_name'' = Some yn" and "get_agent reg yn = Inr a"
  shows "(parameters ''channel_name'' = Some cn \<and> get_channel reg cn = Inr ch
            \<and> resp_messages (read sl (slack_id ch)) = Some []
          \<longrightarrow> read_channel reg sl parameters = (Inr (RString not_a_member), reg))
       \<and> (parameters ''sender_name'' = Some sn \<and> get_agent reg sn = Inr sa
            \<and> get_world_starttime_of_agent reg sn = Inr wsd
            \<and> check_ongoing_dms sl = Some chans
            \<and> find_dm_channel sl (length (get_humans reg) + 2) (app_slack_id sa)
                 (app_slack_id a) chans = Inr cid
            \<and> (resp_error (read sl cid) = None \<or> resp_error (read sl cid) = Some [])
            \<and> resp_messages (read sl cid) = Some []
          \<longrightarrow> fst (read_dm reg sl parameters) = Inr (RMessages [])
              \<and> ledger (snd (read_dm reg sl parameters)) = ledger reg)"
proof (intro conjI impI)
  assume "parameters ''channel_name'' = Some cn \<and> get_channel reg cn = Inr ch
            \<and> resp_messages (read sl (slack_id ch)) = Some []"
  with assms show "read_channel reg sl parameters = (Inr (RString not_a_member), reg)"
    by (intro read_channel_empty[where yn = yn and a = a and cn = cn and ch = ch]) simp_all
next
  assume h: "parameters ''sender_name'' = Some sn \<and> get_agent reg sn = Inr sa
            \<and> get_world_starttime_of_agent reg sn = Inr wsd
            \<and> check_ongoing_dms sl = Some chans
            \<and> find_dm_channel sl (length (get_humans reg) + 2) (app_slack_id sa)
                 (app_slack_id a) chans = Inr cid
            \<and> (resp_error (read sl cid) = None \<or> resp_error (read sl cid) = Some [])
            \<and> resp_messages (read sl cid) = Some []"
  have "fst (read_dm reg sl parameters) = Inr (RMessages [])
              \<and> ledger (snd (read_dm reg sl parameters)) = ledger reg"
    using assms h
    by (intro read_dm_empty[where yn = yn and a = a and sn = sn and sa = sa and wsd = wsd
          and chans = chans and cid = cid]) simp_all
  then show "fst (read_dm reg sl parameters) = Inr (RMessages [])"
    and "ledger (snd (read_dm reg sl parameters)) = ledger reg" by simp_all
qed

theorem empty_read_outcomes_witness:
  "read_channel ex_reg (ex_slack [''UA'', ''UB'', ''UH''] [])
       [''your_name'' \<mapsto> ''bob'', ''channel_name'' \<mapsto> ''general'', ''sender_name'' \<mapsto> ''alice'']
     = (Inr (RString not_a_member), ex_reg)
   \<and> fst (read_dm ex_reg (ex_slack [''UA'', ''UB'', ''UH''] [])
       [''your_name'' \<mapsto> ''bob'', ''channel_name'' \<mapsto> ''general'', ''sender_name'' \<mapsto> ''alice''])
     = Inr (RMessages [])
   \<and> resp_messages (read (ex_slack [''UA'', ''UB'', ''UH''] []) ''C1'') = Some []
   \<and> resp_messages (read (ex_slack [''UA'', ''UB'', ''UH''] []) ''D1'') = Some []"
proof -
  let ?sl = "ex_slack [''UA'', ''UB'', ''UH''] []"
  let ?p = "[''your_name'' \<mapsto> ''bob'', ''channel_name'' \<mapsto> ''general'',
             ''sender_name'' \<mapsto> ''alice'']"
  have p: "?p ''your_name'' = Some ''bob''" by simp
  have a: "get_agent ex_reg ''bob'' = Inr (ex_agent ''W'' ''UB'')"
    by (simp add: ex_defs reg_defs)
  have c: "?p ''channel_name'' = Some ''general'' \<and> get_channel ex_reg ''general'' = Inr (Channel ''C1'' ''general'')
           \<and> resp_messages (read ?sl (slack_id (Channel ''C1'' ''general''))) = Some []"
    by (simp add: ex_defs reg_defs)
  have d: "?p ''sender_name'' = Some ''alice'' \<and> get_agent ex_reg ''alice'' = Inr (ex_agent ''W'' ''UA'')
           \<and> get_world_starttime_of_agent ex_reg ''alice'' = Inr 1000
           \<and> check_ongoing_dms ?sl = Some [''D1'']
           \<and> find_dm_channel ?sl (length (get_humans ex_reg) + 2) (app_slack_id (ex_agent ''W'' ''UA''))
                 (app_slack_id (ex_agent ''W'' ''UB'')) [''D1''] = Inr ''D1''
           \<and> (resp_error (read ?sl ''D1'') = None \<or> resp_error (read ?sl ''D1'') = Some [])
           \<and> resp_messages (read ?sl ''D1'') = Some []"
    by (simp add: ex_defs reg_defs find_dm_channel_def)
  from empty_read_outcomes[where parameters = ?p and yn = "''bob''" and reg = ex_reg
      and a = "ex_agent ''W'' ''UB''" and cn = "''general''"
      and ch = "Channel ''C1'' ''general''" and sl = ?sl and sn = "''alice''"
      and sa = "ex_agent ''W'' ''UA''" and wsd = 1000 and chans = "[''D1'']"
      and cid = "''D1''"] p a c d
  show ?thesis by simp
qed

theorem read_dm_empty_counterexample:
  "history (ex_slack [''UA'', ''UB'', ''UH''] []) ''D1'' = []
   \<and> fst (call_tool ex_reg (ex_slack [''UA'', ''UB'', ''UH''] [])
          1006 ''read_dm'' [''your_name'' \<mapsto> ''bob'', ''sender_name'' \<mapsto> ''alice''])
     = Inr (RMessages [])
   \<and> fst (call_tool ex_reg (ex_slack [''UA'', ''UB'', ''UH''] [])
          1006 ''read_dm'' [''your_name'' \<mapsto> ''bob'', ''sender_name'' \<mapsto> ''alice''])
     \<noteq> Inr (RString not_a_member)"
  by (simp add: ex_defs reg_defs tool_defs ts_defs history_def)

lemma response_messages_Inl [simp]:
  "response_messages r = Inl e \<longleftrightarrow> resp_messages r = None \<and> e = KeyError ''messages''"
  by (auto simp: response_messages_def split: option.splits)

lemma candidates_readable:
  assumes "readable sl wsd cid"
  shows "\<exists>raw kept. resp_messages (read sl cid) = Some raw
           \<and> filter_ts (\<lambda>t. wsd \<le> t) raw = Inr kept
           \<and> candidates reg sl wsd cid = map (new_message reg cid) kept"
  using assms unfolding readable_def candidates_def
  by (auto split: sum.splits)

lemma candidates_origin:
  assumes "m \<in> set (candidates reg sl wsd cid)"
  shows "\<exists>r \<in> set (history sl cid). \<exists>t. sent_at r t \<and> wsd \<le> t \<and> m = new_message reg cid r"
proof -
  obtain raw where raw: "resp_messages (read sl cid) = Some raw"
    using assms
    by (cases "resp_messages (read sl cid)") (auto simp: candidates_def response_messages_def)
  obtain kept where kept: "filter_ts (\<lambda>t. wsd \<le> t) raw = Inr kept"
    using assms raw
    by (cases "filter_ts (\<lambda>t. wsd \<le> t) raw") (auto simp: candidates_def response_messages_def)
  have m: "m \<in> set (map (new_message reg cid) kept)"
    using assms raw kept by (simp add: candidates_def response_messages_def)
  from filter_ts_Inr[OF kept] have "kept = filter (\<lambda>r. \<exists>t. sent_at r t \<and> wsd \<le> t) raw"
    by simp
  with m obtain r where "r \<in> set raw" "\<exists>t. sent_at r t \<and> wsd \<le> t" "m = new_message reg cid r"
    by auto
  then show ?thesis
    using history_Some[OF raw] by auto
qed

lemma candidates_agent_local:
  assumes "agent_local reg n reg'"
  shows "candidates reg' sl wsd cid = candidates reg sl wsd cid"
proof -
  have "new_message reg' cid = new_message reg cid"
    by (intro ext) (simp add: new_message_def agent_local_frame(5)[OF assms])
  then show ?thesis by (simp add: candidates_def split: sum.splits)
qed

lemma check_channel_unreadable:
  assumes "\<not> readable sl wsd cid"
  shows "\<exists>e. check_channel reg sl yn wsd cid = (Inl e, reg)"
  using assms unfolding readable_def check_channel_def
  by (auto split: sum.splits)

lemma check_channel_readable:
  assumes "readable sl wsd cid" and "get_agent reg yn = Inr a"
  shows "(candidates reg sl wsd cid = [] \<longrightarrow> check_channel reg sl yn wsd cid = (Inr None, reg))
       \<and> (candidates reg sl wsd cid \<noteq> [] \<longrightarrow>
            (\<exists>reg1. update_agent_read_messages reg yn cid
                       (filter (\<lambda>m. m \<notin> set (ledger reg yn cid)) (candidates reg sl wsd cid))
                     = Inr reg1
                  \<and> check_channel reg sl yn wsd cid
                     = (Inr (Some (filter (\<lambda>m. m \<notin> set (ledger reg yn cid))
                                     (candidates reg sl wsd cid))), reg1)))"
proof -
  from candidates_readable[OF assms(1), of reg] obtain raw kept where
    raw: "resp_messages (read sl cid) = Some raw"
    and kept: "filter_ts (\<lambda>t. wsd \<le> t) raw = Inr kept"
    and c: "candidates reg sl wsd cid = map (new_message reg cid) kept" by blast
  let ?delta = "filter (\<lambda>m. m \<notin> set (ledger reg yn cid)) (candidates reg sl wsd cid)"
  from update_agent_read_messages_ok[OF assms(2)] obtain reg1 where
    u: "update_agent_read_messages reg yn cid ?delta = Inr reg1" by blast
  have d: "only_show_new_messages reg yn cid (candidates reg sl wsd cid) = Inr ?delta"
    by (rule only_show_new_messages_ledger[OF assms(2)])
  show ?thesis
    using raw kept c u d
    by (auto simp: check_channel_def Let_def response_messages_def)
qed

lemma check_loop_readable:
  assumes "check_loop reg sl yn wsd cids acc = (Inr res, reg')"
  shows "\<forall>c \<in> set cids. readable sl wsd c"
  using assms
proof (induction cids arbitrary: reg acc)
  case Nil
  show ?case by simp
next
  case (Cons cid cids)
  have r: "readable sl wsd cid"
  proof (rule ccontr)
    assume "\<not> readable sl wsd cid"
    from check_channel_unreadable[OF this, of reg yn] Cons.prems show False
      by auto
  qed
  obtain x reg1 where c: "check_channel reg sl yn wsd cid = (x, reg1)"
    by (cases "check_channel reg sl yn wsd cid")
  from Cons.prems c obtain acc' where "check_loop reg1 sl yn wsd cids acc' = (Inr res, reg')"
    by (auto split: sum.splits option.splits)
  from Cons.IH[OF this] r show ?case by simp
qed

lemma check_loop_result:
  assumes "get_agent reg yn = Inr a" and "\<forall>c \<in> set cids. readable sl wsd c"
    and "distinct cids"
  shows "\<exists>reg'. check_loop reg sl yn wsd cids acc
             = (Inr (acc @ map (\<lambda>c. filter (\<lambda>m. m \<notin> set (ledger reg yn c))
                                     (candidates reg sl wsd c))
                              (filter (\<lambda>c. candidates reg sl wsd c \<noteq> []) cids)), reg')
           \<and> agent_local reg yn reg'
           \<and> (\<forall>c. ledger reg' yn c
                 = (if c \<in> set cids \<and> candidates reg sl wsd c \<noteq> []
                    then ledger reg yn c @ filter (\<lambda>m. m \<notin> set (ledger reg yn c))
                                            (candidates reg sl wsd c)
                    else ledger reg yn c))"
  using assms
proof (induction cids arbitrary: reg a acc)
  case Nil
  then show ?case by (auto intro: agent_local_refl)
next
  case (Cons cid cids)
  from Cons.prems have r: "readable sl wsd cid" and rs: "\<forall>c \<in> set cids. readable sl wsd c"
    and nin: "cid \<notin> set cids" and dist: "distinct cids" by auto
  note cc = check_channel_readable[OF r Cons.prems(1)]
  show ?case
  proof (cases "candidates reg sl wsd cid = []")
    case True
    with cc have c: "check_channel reg sl yn wsd cid = (Inr None, reg)" by simp
    from Cons.IH[OF Cons.prems(1) rs dist, of acc] obtain reg' where
      l: "check_loop reg sl yn wsd cids acc
             = (Inr (acc @ map (\<lambda>c. filter (\<lambda>m. m \<notin> set (ledger reg yn c))
                                     (candidates reg sl wsd c))
                              (filter (\<lambda>c. candidates reg sl wsd c \<noteq> []) cids)), reg')"
      and al: "agent_local reg yn reg'"
      and led: "\<forall>c. ledger reg' yn c
                 = (if c \<in> set cids \<and> candidates reg sl wsd c \<noteq> []
                    then ledger reg yn c @ filter (\<lambda>m. m \<notin> set (ledger reg yn c))
                                            (candidates reg sl wsd c)
                    else ledger reg yn c)" by blast
    show ?thesis
      using True c l al led by (intro exI[of _ reg']) auto
  next
    case False
    let ?delta = "filter (\<lambda>m. m \<notin> set (ledger reg yn cid)) (candidates reg sl wsd cid)"
    from cc False obtain reg1 where
      u: "update_agent_read_messages reg yn cid ?delta = Inr reg1"
      and c: "check_channel reg sl yn wsd cid = (Inr (Some ?delta), reg1)" by blast
    have al1: "agent_local reg yn reg1"
      by (rule agent_local_update_agent_read_messages[OF u])
    from agent_local_get_agent[OF al1 Cons.prems(1)] obtain a1 where
      a1: "get_agent reg1 yn = Inr a1" by blast
    have cand: "\<And>c. candidates reg1 sl wsd c = candidates reg sl wsd c"
      by (rule candidates_agent_local[OF al1])
    have led1: "\<And>c. ledger reg1 yn c = (if c = cid then ledger reg yn cid @ ?delta
                                            else ledger reg yn c)"
      by (simp add: ledger_update_agent_read_messages[OF u] filter_id_conv)
    from Cons.IH[OF a1 rs dist, of "acc @ [?delta]"] obtain reg' where
      l: "check_loop reg1 sl yn wsd cids (acc @ [?delta])
             = (Inr ((acc @ [?delta]) @ map (\<lambda>c. filter (\<lambda>m. m \<notin> set (ledger reg1 yn c))
                                     (candidates reg1 sl wsd c))
                              (filter (\<lambda>c. candidates reg1 sl wsd c \<noteq> []) cids)), reg')"
      and al: "agent_local reg1 yn reg'"
      and led: "\<forall>c. ledger reg' yn c
                 = (if c \<in> set cids \<and> candidates reg1 sl wsd c \<noteq> []
                    then ledger reg1 yn c @ filter (\<lambda>m. m \<notin> set (ledger reg1 yn c))
                                            (candidates reg1 sl wsd c)
                    else ledger reg1 yn c)" by blast
    have m: "map (\<lambda>c. filter (\<lambda>m. m \<notin> set (ledger reg1 yn c)) (candidates reg1 sl wsd c))
                 (filter (\<lambda>c. candidates reg1 sl wsd c \<noteq> []) cids)
             = map (\<lambda>c. filter (\<lambda>m. m \<notin> set (ledger reg yn c)) (candidates reg sl wsd c))
                 (filter (\<lambda>c. candidates reg sl wsd c \<noteq> []) cids)"
      using nin by (intro map_cong) (auto simp: cand led1)
    have 1: "check_loop reg sl yn wsd (cid # cids) acc
             = (Inr (acc @ map (\<lambda>c. filter (\<lambda>m. m \<notin> set (ledger reg yn c))
                                     (candidates reg sl wsd c))
                              (filter (\<lambda>c. candidates reg sl wsd c \<noteq> []) (cid # cids))), reg')"
      using False c l m by simp
    have 2: "agent_local reg yn reg'"
      by (rule agent_local_trans[OF al1 al])
    have 3: "\<forall>c. ledger reg' yn c
                 = (if c \<in> set (cid # cids) \<and> candidates reg sl wsd c \<noteq> []
                    then ledger reg yn c @ filter (\<lambda>m. m \<notin> set (ledger reg yn c))
                                            (candidates reg sl wsd c)
                    else ledger reg yn c)"
      using led nin False by (auto simp: cand led1)
    from 1 2 3 show ?thesis by blast
  qed
qed

lemma distinct_polled_channels: "distinct (polled_channels reg sl agent_id)"
  by (simp add: polled_channels_def channel_ids_with_agent_def distinct_resolve_channels)

lemma check_new_messages_unfold:
  assumes "parameters ''your_name'' = Some yn" and "get_agent reg yn = Inr a"
    and "get_world reg (world_name a) = Inr w"
  shows "\<exists>reg1. update_channels reg sl yn = Inr reg1
           \<and> check_new_messages reg sl parameters
               = (case check_loop reg1 sl yn (start_datetime w)
                         (polled_channels reg sl (app_slack_id a)) [] of
                    (Inl e, reg2) \<Rightarrow> (Inl e, reg2)
                  | (Inr r, reg2) \<Rightarrow> (Inr (RNewMessages r), reg2))"
  using assms
  by (simp add: check_new_messages_def attempt_def param_def agent_exists_get_agent
        update_channels_def get_agent_put_agent polled_channels_def)

lemma check_new_messages_params:
  assumes "check_new_messages reg sl parameters = (Inr (RNewMessages res), reg')"
  shows "\<exists>yn a w. parameters ''your_name'' = Some yn \<and> get_agent reg yn = Inr a
           \<and> get_world reg (world_name a) = Inr w"
  using assms unfolding check_new_messages_def attempt_def
  by (auto split: sum.splits if_splits)

lemma check_new_messages_run:
  assumes "parameters ''your_name'' = Some yn" and "get_agent reg yn = Inr a"
    and "get_world reg (world_name a) = Inr w"
    and "\<forall>c \<in> set (polled_channels reg sl (app_slack_id a)). readable sl (start_datetime w) c"
  shows "\<exists>reg'. check_new_messages reg sl parameters
             = (Inr (RNewMessages
                  (map (\<lambda>c. filter (\<lambda>m. m \<notin> set (ledger reg yn c))
                               (candidates reg sl (start_datetime w) c))
                       (filter (\<lambda>c. candidates reg sl (start_datetime w) c \<noteq> [])
                          (polled_channels reg sl (app_slack_id a))))), reg')
           \<and> agent_local reg yn reg'
           \<and> (\<forall>c. ledger reg' yn c
                 = (if c \<in> set (polled_channels reg sl (app_slack_id a))
                       \<and> candidates reg sl (start_datetime w) c \<noteq> []
                    then ledger reg yn c @ filter (\<lambda>m. m \<notin> set (ledger reg yn c))
                                            (candidates reg sl (start_datetime w) c)
                    else ledger reg yn c))"
proof -
  let ?wsd = "start_datetime w"
  let ?polled = "polled_channels reg sl (app_slack_id a)"
  from check_new_messages_unfold[where parameters = parameters and sl = sl, OF assms(1-3)] obtain reg1 where
    uc: "update_channels reg sl yn = Inr reg1"
    and cn: "check_new_messages reg sl parameters
               = (case check_loop reg1 sl yn ?wsd ?polled [] of
                    (Inl e, reg2) \<Rightarrow> (Inl e, reg2)
                  | (Inr r, reg2) \<Rightarrow> (Inr (RNewMessages r), reg2))" by blast
  have al1: "agent_local reg yn reg1" by (rule agent_local_update_channels[OF uc])
  from agent_local_get_agent[OF al1 assms(2)] obtain a1 where
    a1: "get_agent reg1 yn = Inr a1" by blast
  have cand: "\<And>c. candidates reg1 sl ?wsd c = candidates reg sl ?wsd c"
    by (rule candidates_agent_local[OF al1])
  have led1: "\<And>c. ledger reg1 yn c = ledger reg yn c"
    by (rule ledger_update_channels[OF uc])
  from check_loop_result[OF a1 assms(4) distinct_polled_channels, of "[]"] obtain reg' where
    l: "check_loop reg1 sl yn ?wsd ?polled []
          = (Inr (map (\<lambda>c. filter (\<lambda>m. m \<notin> set (ledger reg yn c)) (candidates reg sl ?wsd c))
                      (filter (\<lambda>c. candidates reg sl ?wsd c \<noteq> []) ?polled)), reg')"
    and al: "agent_local reg1 yn reg'"
    and led: "\<forall>c. ledger reg' yn c
                 = (if c \<in> set ?polled \<and> candidates reg sl ?wsd c \<noteq> []
                    then ledger reg yn c @ filter (\<lambda>m. m \<notin> set (ledger reg yn c))
                                            (candidates reg sl ?wsd c)
                    else ledger reg yn c)"
    unfolding cand led1 by auto
  have 1: "check_new_messages reg sl parameters
             = (Inr (RNewMessages
                  (map (\<lambda>c. filter (\<lambda>m. m \<notin> set (ledger reg yn c)) (candidates reg sl ?wsd c))
                       (filter (\<lambda>c. candidates reg sl ?wsd c \<noteq> []) ?polled))), reg')"
    by (simp add: cn l)
  from 1 agent_local_trans[OF al1 al] led show ?thesis by blast
qed

lemma check_new_messages_readable:
  assumes "check_new_messages reg sl parameters = (Inr (RNewMessages res), reg')"
    and "parameters ''your_name'' = Some yn" and "get_agent reg yn = Inr a"
    and "get_world reg (world_name a) = Inr w"
  shows "\<forall>c \<in> set (polled_channels reg sl (app_slack_id a)). readable sl (start_datetime w) c"
proof -
  from check_new_messages_unfold[where parameters = parameters and sl = sl, OF assms(2-4)] obtain reg1 where
    cn: "check_new_messages reg sl parameters
               = (case check_loop reg1 sl yn (start_datetime w)
                         (polled_channels reg sl (app_slack_id a)) [] of
                    (Inl e, reg2) \<Rightarrow> (Inl e, reg2)
                  | (Inr r, reg2) \<Rightarrow> (Inr (RNewMessages r), reg2))" by blast
  from assms(1) cn have "check_loop reg1 sl yn (start_datetime w)
                         (polled_channels reg sl (app_slack_id a)) [] = (Inr res, reg')"
    by (auto split: prod.splits sum.splits)
  then show ?thesis by (rule check_loop_readable)
qed

text \<open>
  C1 (amended). \<^verbatim>\<open>check_new_messages\<close> returns one list per polled channel that has
  at least one backend record at or after the start of the agent's world: the delta of
  that channel's candidates against the agent's ledger, in the order of the channels. A
  channel without such a record is left out. A channel that has such records, all of them
  already in the ledger, contributes an empty list: a check repeated at once against the
  same backend returns one empty list for each of those channels.
\<close>

theorem check_new_messages_per_channel:
  assumes "check_new_messages reg sl parameters = (Inr (RNewMessages res), reg')"
  shows "\<exists>yn a w. parameters ''your_name'' = Some yn \<and> get_agent reg yn = Inr a
           \<and> get_world reg (world_name a) = Inr w
           \<and> res = map (\<lambda>c. filter (\<lambda>m. m \<notin> set (ledger reg yn c))
                               (candidates reg sl (start_datetime w) c))
                       (filter (\<lambda>c. candidates reg sl (start_datetime w) c \<noteq> [])
                          (polled_channels reg sl (app_slack_id a)))
           \<and> fst (check_new_messages reg' sl parameters)
               = Inr (RNewMessages
                   (map (\<lambda>c. [])
                      (filter (\<lambda>c. candidates reg sl (start_datetime w) c \<noteq> [])
                         (polled_channels reg sl (app_slack_id a)))))"
proof -
  from check_new_messages_params[OF assms] obtain yn a w where
    yn: "parameters ''your_name'' = Some yn" and a: "get_agent reg yn = Inr a"
    and w: "get_world reg (world_name a) = Inr w" by blast
  let ?wsd = "start_datetime w"
  let ?polled = "polled_channels reg sl (app_slack_id a)"
  note rd = check_new_messages_readable[OF assms yn a w]
  from check_new_messages_run[where parameters = parameters, OF yn a w rd] assms have
    res: "res = map (\<lambda>c. filter (\<lambda>m. m \<notin> set (ledger reg yn c)) (candidates reg sl ?wsd c))
                       (filter (\<lambda>c. candidates reg sl ?wsd c \<noteq> []) ?polled)"
    and al: "agent_local reg yn reg'"
    and led: "\<forall>c. ledger reg' yn c
                 = (if c \<in> set ?polled \<and> candidates reg sl ?wsd c \<noteq> []
                    then ledger reg yn c @ filter (\<lambda>m. m \<notin> set (ledger reg yn c))
                                            (candidates reg sl ?wsd c)
                    else ledger reg yn c)"
    by auto
  from agent_local_get_agent[OF al a] obtain a' where a': "get_agent reg' yn = Inr a'"
    and wn: "world_name a' = world_name a" and id: "app_slack_id a' = app_slack_id a" by blast
  have w': "get_world reg' (world_name a') = Inr w"
    by (simp add: wn agent_local_frame(7)[OF al] w)
  have polled: "polled_channels reg' sl (app_slack_id a') = ?polled"
    by (simp add: polled_channels_def id
          resolve_channels_cong[OF agent_local_frame(4)[OF al]])
  have cand: "\<And>c. candidates reg' sl ?wsd c = candidates reg sl ?wsd c"
    by (rule candidates_agent_local[OF al])
  have rd': "\<forall>c \<in> set (polled_channels reg' sl (app_slack_id a')). readable sl ?wsd c"
    using rd by (simp add: polled)
  from check_new_messages_run[where parameters = parameters, OF yn a' w' rd'] obtain reg'' where
    2: "check_new_messages reg' sl parameters
          = (Inr (RNewMessages
                  (map (\<lambda>c. filter (\<lambda>m. m \<notin> set (ledger reg' yn c)) (candidates reg sl ?wsd c))
                       (filter (\<lambda>c. candidates reg sl ?wsd c \<noteq> []) ?polled))), reg'')"
    unfolding polled cand by blast
  have e: "map (\<lambda>c. filter (\<lambda>m. m \<notin> set (ledger reg' yn c)) (candidates reg sl ?wsd c))
               (filter (\<lambda>c. candidates reg sl ?wsd c \<noteq> []) ?polled)
           = map (\<lambda>c. []) (filter (\<lambda>c. candidates reg sl ?wsd c \<noteq> []) ?polled)"
    by (intro map_cong refl) (auto simp: led filter_empty_conv)
  from yn a w res 2 e show ?thesis by simp
qed

theorem check_new_messages_per_channel_witness:
  "check_new_messages ex_reg
       (ex_slack [''UA'', ''UB'', ''UH''] [ex_raw ''UA'' ''hello'' ''1005.000000'' 1005])
       [''your_name'' \<mapsto> ''bob'']
     = (Inr (RNewMessages [[Message ''hello'' ''D1'' ''UA'' (TsStr ''1005'') (Some ''alice'')]]),
        put_agent ex_reg ''bob''
          \<lparr>world_name = ''W'', app_slack_id = ''UB'',
            channels = [Channel ''D1'' ''UA,UB'', Channel ''C1'' ''general''],
            read_messages =
              [''D1'' \<mapsto> [Message ''hello'' ''D1'' ''UA'' (TsStr ''1005'') (Some ''alice'')]]\<rparr>)
   \<and> polled_channels ex_reg
        (ex_slack [''UA'', ''UB'', ''UH''] [ex_raw ''UA'' ''hello'' ''1005.000000'' 1005]) ''UB''
       = [''D1'', ''C1'']
   \<and> candidates ex_reg
        (ex_slack [''UA'', ''UB'', ''UH''] [ex_raw ''UA'' ''hello'' ''1005.000000'' 1005]) 1000 ''D1''
       = [Message ''hello'' ''D1'' ''UA'' (TsStr ''1005'') (Some ''alice'')]
   \<and> candidates ex_reg
        (ex_slack [''UA'', ''UB'', ''UH''] [ex_raw ''UA'' ''hello'' ''1005.000000'' 1005]) 1000 ''C1''
       = []
   \<and> fst (check_new_messages
        (put_agent ex_reg ''bob''
          \<lparr>world_name = ''W'', app_slack_id = ''UB'',
            channels = [Channel ''D1'' ''UA,UB'', Channel ''C1'' ''general''],
            read_messages =
              [''D1'' \<mapsto> [Message ''hello'' ''D1'' ''UA'' (TsStr ''1005'') (Some ''alice'')]]\<rparr>)
        (ex_slack [''UA'', ''UB'', ''UH''] [ex_raw ''UA'' ''hello'' ''1005.000000'' 1005])
        [''your_name'' \<mapsto> ''bob''])
     = Inr (RNewMessages [[]])"
proof -
  let ?sl = "ex_slack [''UA'', ''UB'', ''UH''] [ex_raw ''UA'' ''hello'' ''1005.000000'' 1005]"
  let ?p = "[''your_name'' \<mapsto> ''bob'']"
  let ?r = "put_agent ex_reg ''bob''
          \<lparr>world_name = ''W'', app_slack_id = ''UB'',
            channels = [Channel ''D1'' ''UA,UB'', Channel ''C1'' ''general''],
            read_messages =
              [''D1'' \<mapsto> [Message ''hello'' ''D1'' ''UA'' (TsStr ''1005'') (Some ''alice'')]]\<rparr>"
  have h: "check_new_messages ex_reg ?sl ?p
     = (Inr (RNewMessages [[Message ''hello'' ''D1'' ''UA'' (TsStr ''1005'') (Some ''alice'')]]), ?r)"
    by (simp add: ex_defs reg_defs tool_defs ts_defs)
  have p: "polled_channels ex_reg ?sl ''UB'' = [''D1'', ''C1'']"
    by (simp add: polled_channels_def ex_defs reg_defs tool_defs)
  have c1: "candidates ex_reg ?sl 1000 ''D1''
              = [Message ''hello'' ''D1'' ''UA'' (TsStr ''1005'') (Some ''alice'')]"
    by (simp add: candidates_def ex_defs reg_defs tool_defs ts_defs)
  have c2: "candidates ex_reg ?sl 1000 ''C1'' = []"
    by (simp add: candidates_def ex_defs reg_defs tool_defs ts_defs)
  from check_new_messages_per_channel[OF h] obtain yn a w where
    yn: "?p ''your_name'' = Some yn" and a: "get_agent ex_reg yn = Inr a"
    and w: "get_world ex_reg (world_name a) = Inr w"
    and second: "fst (check_new_messages ?r ?sl ?p)
               = Inr (RNewMessages
                   (map (\<lambda>c. [])
                      (filter (\<lambda>c. candidates ex_reg ?sl (start_datetime w) c \<noteq> [])
                         (polled_channels ex_reg ?sl (app_slack_id a)))))"
    by blast
  from yn have "yn = ''bob''" by simp
  with a have a': "a = ex_agent ''W'' ''UB''"
    by (simp add: ex_defs reg_defs)
  with w have "start_datetime w = 1000"
    by (auto simp: ex_defs reg_defs)
  with second a' have "fst (check_new_messages ?r ?sl ?p) = Inr (RNewMessages [[]])"
    by (simp add: p c1 c2 ex_agent_def)
  with h p c1 c2 show ?thesis by simp
qed

theorem check_new_messages_repeat_counterexample:
  "call_tool ex_reg (ex_slack [''UA'', ''UB'', ''UH''] [ex_raw ''UA'' ''hello'' ''1005.000000'' 1005])
          1006 ''check_new_messages'' [''your_name'' \<mapsto> ''bob'']
     = (Inr (RNewMessages [[Message ''hello'' ''D1'' ''UA'' (TsStr ''1005'') (Some ''alice'')]]),
        put_agent ex_reg ''bob''
          \<lparr>world_name = ''W'', app_slack_id = ''UB'',
            channels = [Channel ''D1'' ''UA,UB'', Channel ''C1'' ''general''],
            read_messages = [''D1'' \<mapsto> [Message ''hello'' ''D1'' ''UA'' (TsStr ''1005'') (Some ''alice'')]]\<rparr>)
   \<and> fst (call_tool (put_agent ex_reg ''bob''
          \<lparr>world_name = ''W'', app_slack_id = ''UB'',
            channels = [Channel ''D1'' ''UA,UB'', Channel ''C1'' ''general''],
            read_messages = [''D1'' \<mapsto> [Message ''hello'' ''D1'' ''UA'' (TsStr ''1005'') (Some ''alice'')]]\<rparr>)
        (ex_slack [''UA'', ''UB'', ''UH''] [ex_raw ''UA'' ''hello'' ''1005.000000'' 1005])
          1007 ''check_new_messages'' [''your_name'' \<mapsto> ''bob''])
     = Inr (RNewMessages [[]])"
  by (simp add: ex_defs reg_defs tool_defs ts_defs)

lemma channel_id_messages [simp]:
  "channel_id (channel_message reg cid r) = cid" "channel_id (dm_message reg cid r) = cid"
  "channel_id (new_message reg cid r) = cid"
  by (simp_all add: channel_message_def dm_message_def new_message_def)

lemma get_world_starttime_same_world:
  assumes "get_world_starttime_of_agent reg sn = Inr wsd" and "get_agent reg sn = Inr sa"
    and "world_name sa = world_name a" and "get_world reg (world_name a) = Inr w"
  shows "wsd = start_datetime w"
  using assms by (simp add: get_world_starttime_of_agent_def)

lemma candidates_window:
  assumes "readable sl wsd c"
  shows "candidates reg sl wsd c
         = map (new_message reg c) (filter (\<lambda>r. \<exists>t. sent_at r t \<and> wsd \<le> t) (history sl c))"
proof -
  from candidates_readable[OF assms, of reg] obtain raw kept where
    raw: "resp_messages (read sl c) = Some raw"
    and kept: "filter_ts (\<lambda>t. wsd \<le> t) raw = Inr kept"
    and c: "candidates reg sl wsd c = map (new_message reg c) kept" by blast
  from filter_ts_Inr[OF kept] have "kept = filter (\<lambda>r. \<exists>t. sent_at r t \<and> wsd \<le> t) raw"
    by simp
  then show ?thesis
    by (simp add: c history_Some[OF raw])
qed

text \<open>
  What the two other read operations do: a message that \<^verbatim>\<open>read_channel\<close> or
  \<^verbatim>\<open>check_new_messages\<close> returns comes from a backend record of its channel whose
  time is not before the start of the world of the calling agent (lines 210 and 302).
\<close>

lemma reader_world_window:
  "(read_channel reg sl parameters = (Inr (RMessages ms), reg') \<longrightarrow>
      (\<exists>yn a w. parameters ''your_name'' = Some yn \<and> get_agent reg yn = Inr a
         \<and> get_world reg (world_name a) = Inr w
         \<and> (\<forall>m \<in> set ms. \<exists>r \<in> set (history sl (channel_id m)). \<exists>t.
               sent_at r t \<and> start_datetime w < t
               \<and> m = channel_message reg (channel_id m) r)))
   \<and> (check_new_messages reg sl parameters = (Inr (RNewMessages res), reg') \<longrightarrow>
      (\<exists>yn a w. parameters ''your_name'' = Some yn \<and> get_agent reg yn = Inr a
         \<and> get_world reg (world_name a) = Inr w
         \<and> (\<forall>new \<in> set res. \<forall>m \<in> set new. \<exists>r \<in> set (history sl (channel_id m)). \<exists>t.
               sent_at r t \<and> start_datetime w \<le> t
               \<and> m = new_message reg (channel_id m) r)))"
proof (intro conjI impI)
  assume "read_channel reg sl parameters = (Inr (RMessages ms), reg')"
  from read_channel_result[OF this] obtain yn a w cn ch raw where
    1: "parameters ''your_name'' = Some yn" "get_agent reg yn = Inr a"
       "get_world reg (world_name a) = Inr w"
    and raw: "resp_messages (read sl (slack_id ch)) = Some raw"
    and ms: "ms = map (channel_message reg (slack_id ch))
                    (filter (\<lambda>r. \<exists>t. sent_at r t \<and> start_datetime w < t) raw)"
    by blast
  have "\<forall>m \<in> set ms. \<exists>r \<in> set (history sl (channel_id m)). \<exists>t.
               sent_at r t \<and> start_datetime w < t \<and> m = channel_message reg (channel_id m) r"
    unfolding ms using history_Some[OF raw] by auto
  with 1 show "\<exists>yn a w. parameters ''your_name'' = Some yn \<and> get_agent reg yn = Inr a
         \<and> get_world reg (world_name a) = Inr w
         \<and> (\<forall>m \<in> set ms. \<exists>r \<in> set (history sl (channel_id m)). \<exists>t.
               sent_at r t \<and> start_datetime w < t
               \<and> m = channel_message reg (channel_id m) r)"
    by blast
next
  assume h: "check_new_messages reg sl parameters = (Inr (RNewMessages res), reg')"
  from check_new_messages_params[OF h] obtain yn a w where
    yn: "parameters ''your_name'' = Some yn" and a: "get_agent reg yn = Inr a"
    and w: "get_world reg (world_name a) = Inr w" by blast
  note rd = check_new_messages_readable[OF h yn a w]
  from check_new_messages_run[where parameters = parameters, OF yn a w rd] h have
    res: "res = map (\<lambda>c. filter (\<lambda>m. m \<notin> set (ledger reg yn c))
                          (candidates reg sl (start_datetime w) c))
                    (filter (\<lambda>c. candidates reg sl (start_datetime w) c \<noteq> [])
                       (polled_channels reg sl (app_slack_id a)))"
    by auto
  have "\<forall>new \<in> set res. \<forall>m \<in> set new. \<exists>r \<in> set (history sl (channel_id m)). \<exists>t.
               sent_at r t \<and> start_datetime w \<le> t \<and> m = new_message reg (channel_id m) r"
  proof (intro ballI)
    fix new m
    assume "new \<in> set res" and m: "m \<in> set new"
    then obtain c where "new = filter (\<lambda>m. m \<notin> set (ledger reg yn c))
                          (candidates reg sl (start_datetime w) c)"
      unfolding res by auto
    with m have "m \<in> set (candidates reg sl (start_datetime w) c)" by simp
    from candidates_origin[OF this] obtain r t where
      r: "r \<in> set (history sl c)" "sent_at r t" "start_datetime w \<le> t"
      and mr: "m = new_message reg c r" by blast
    from mr have cm: "channel_id m = c" by simp
    show "\<exists>r \<in> set (history sl (channel_id m)). \<exists>t.
               sent_at r t \<and> start_datetime w \<le> t \<and> m = new_message reg (channel_id m) r"
      unfolding cm using r mr by (intro bexI[of _ r] exI[of _ t]) simp_all
  qed
  with yn a w show "\<exists>yn a w. parameters ''your_name'' = Some yn \<and> get_agent reg yn = Inr a
         \<and> get_world reg (world_name a) = Inr w
         \<and> (\<forall>new \<in> set res. \<forall>m \<in> set new. \<exists>r \<in> set (history sl (channel_id m)). \<exists>t.
               sent_at r t \<and> start_datetime w \<le> t
               \<and> m = new_message reg (channel_id m) r)"
    by blast
qed

text \<open>
  C5. The claim is that no read operation returns to an agent a message whose backend
  time is strictly before the start of that agent's world. \<^verbatim>\<open>read_channel\<close> and
  \<^verbatim>\<open>check_new_messages\<close> take the bound from the world of the calling agent (lines
  210 and 302); \<^verbatim>\<open>read_dm\<close> takes it from
  \<^verbatim>\<open>get_world_starttime_of_agent(sender_name)\<close> (line 245), the world of the named
  sender. At the input below dave, whose world starts at 2000, reads the direct messages
  of alice, whose world starts at 1000: \<^verbatim>\<open>read_dm\<close> returns the record of time 1500
  to dave, and \<^verbatim>\<open>check_new_messages\<close>, on the same backend, does not.
\<close>

theorem read_dm_other_world_at_failing_input:
  "fst (call_tool ex_reg
          (ex_slack [''UA'', ''UD'', ''UH''] [ex_raw ''UA'' ''old'' ''1500.000000'' 1500])
          2006 ''read_dm'' [''your_name'' \<mapsto> ''dave'', ''sender_name'' \<mapsto> ''alice''])
     = Inr (RMessages [Message ''old'' ''D1'' ''UA'' (TsStr ''1500'') None])
   \<and> sent_at (ex_raw ''UA'' ''old'' ''1500.000000'' 1500) 1500
   \<and> get_agent ex_reg ''dave'' = Inr (ex_agent ''W2'' ''UD'')
   \<and> get_world ex_reg ''W2'' = Inr \<lparr>start_datetime = 2000, world_channels = []\<rparr>
   \<and> get_world_starttime_of_agent ex_reg ''alice'' = Inr 1000
   \<and> fst (call_tool ex_reg
          (ex_slack [''UA'', ''UD'', ''UH''] [ex_raw ''UA'' ''old'' ''1500.000000'' 1500])
          2006 ''check_new_messages'' [''your_name'' \<mapsto> ''dave''])
     = Inr (RNewMessages [])"
  by (simp add: sent_at_def ex_defs reg_defs tool_defs ts_defs)

lemma read_dm_same_world:
  assumes "read_dm reg sl parameters = (Inr (RMessages ms), reg')"
  shows "\<exists>yn sn a sa chans cid raw.
           parameters ''your_name'' = Some yn \<and> parameters ''sender_name'' = Some sn
         \<and> get_agent reg yn = Inr a \<and> get_agent reg sn = Inr sa
         \<and> check_ongoing_dms sl = Some chans
         \<and> find_dm_channel sl (length (get_humans reg) + 2) (app_slack_id sa) (app_slack_id a)
              chans = Inr cid
         \<and> resp_messages (read sl cid) = Some raw
         \<and> (\<forall>w. world_name sa = world_name a \<and> get_world reg (world_name a) = Inr w
               \<longrightarrow> ms = map (dm_message reg cid)
                          (filter (\<lambda>r. \<exists>t. sent_at r t \<and> start_datetime w \<le> t) raw))"
proof -
  from read_dm_result[OF assms] obtain yn sn a sa wsd chans cid raw where
    1: "parameters ''your_name'' = Some yn" "parameters ''sender_name'' = Some sn"
       "get_agent reg yn = Inr a" "get_agent reg sn = Inr sa"
       "check_ongoing_dms sl = Some chans"
       "find_dm_channel sl (length (get_humans reg) + 2) (app_slack_id sa) (app_slack_id a)
              chans = Inr cid"
       "resp_messages (read sl cid) = Some raw"
    and wsd: "get_world_starttime_of_agent reg sn = Inr wsd"
    and ms: "ms = map (dm_message reg cid) (filter (\<lambda>r. \<exists>t. sent_at r t \<and> wsd \<le> t) raw)"
    by blast
  have "\<forall>w. world_name sa = world_name a \<and> get_world reg (world_name a) = Inr w
               \<longrightarrow> ms = map (dm_message reg cid)
                          (filter (\<lambda>r. \<exists>t. sent_at r t \<and> start_datetime w \<le> t) raw)"
    using get_world_starttime_same_world[OF wsd 1(4)] ms by blast
  with 1 show ?thesis by blast
qed

lemma check_new_messages_window:
  assumes "check_new_messages reg sl parameters = (Inr (RNewMessages res), reg')"
  shows "\<exists>yn a w. parameters ''your_name'' = Some yn \<and> get_agent reg yn = Inr a
           \<and> get_world reg (world_name a) = Inr w
           \<and> res = map (\<lambda>c. filter (\<lambda>m. m \<notin> set (ledger reg yn c))
                               (candidates reg sl (start_datetime w) c))
                       (filter (\<lambda>c. candidates reg sl (start_datetime w) c \<noteq> [])
                          (polled_channels reg sl (app_slack_id a)))
           \<and> (\<forall>c \<in> set (polled_channels reg sl (app_slack_id a)).
                 candidates reg sl (start_datetime w) c
                 = map (new_message reg c)
                     (filter (\<lambda>r. \<exists>t. sent_at r t \<and> start_datetime w \<le> t) (history sl c)))"
proof -
  from check_new_messages_params[OF assms] obtain yn a w where
    yn: "parameters ''your_name'' = Some yn" and a: "get_agent reg yn = Inr a"
    and w: "get_world reg (world_name a) = Inr w" by blast
  note rd = check_new_messages_readable[OF assms yn a w]
  from check_new_messages_run[where parameters = parameters, OF yn a w rd] assms have
    res: "res = map (\<lambda>c. filter (\<lambda>m. m \<notin> set (ledger reg yn c))
                          (candidates reg sl (start_datetime w) c))
                    (filter (\<lambda>c. candidates reg sl (start_datetime w) c \<noteq> [])
                       (polled_channels reg sl (app_slack_id a)))"
    by auto
  have "\<forall>c \<in> set (polled_channels reg sl (app_slack_id a)).
                 candidates reg sl (start_datetime w) c
                 = map (new_message reg c)
                     (filter (\<lambda>r. \<exists>t. sent_at r t \<and> start_datetime w \<le> t) (history sl c))"
    using rd candidates_window by blast
  with yn a w res show ?thesis by blast
qed

text \<open>
  C6 (amended). The time window differs by call site. \<^verbatim>\<open>read_channel\<close> returns
  the records of the channel whose time is strictly greater than the start of the
  calling agent's world. \<^verbatim>\<open>check_new_messages\<close> takes as candidates, on every
  channel it polls, named channel or direct-message channel, the records whose time is
  greater than or equal to that start. \<^verbatim>\<open>read_dm\<close>, when the reader and the named
  sender belong to the same world, returns the records whose time is greater than or
  equal to the start of that world.
\<close>

theorem time_window_by_call_site:
  "(read_channel reg sl parameters = (Inr (RMessages ms), reg') \<longrightarrow>
      (\<exists>yn a w cn ch raw.
           parameters ''your_name'' = Some yn \<and> get_agent reg yn = Inr a
         \<and> get_world reg (world_name a) = Inr w
         \<and> parameters ''channel_name'' = Some cn \<and> get_channel reg cn = Inr ch
         \<and> resp_messages (read sl (slack_id ch)) = Some raw
         \<and> ms = map (channel_message reg (slack_id ch))
                    (filter (\<lambda>r. \<exists>t. sent_at r t \<and> start_datetime w < t) raw)))
   \<and> (check_new_messages reg sl parameters = (Inr (RNewMessages res), reg') \<longrightarrow>
      (\<exists>yn a w. parameters ''your_name'' = Some yn \<and> get_agent reg yn = Inr a
           \<and> get_world reg (world_name a) = Inr w
           \<and> res = map (\<lambda>c. filter (\<lambda>m. m \<notin> set (ledger reg yn c))
                               (candidates reg sl (start_datetime w) c))
                       (filter (\<lambda>c. candidates reg sl (start_datetime w) c \<noteq> [])
                          (polled_channels reg sl (app_slack_id a)))
           \<and> (\<forall>c \<in> set (polled_channels reg sl (app_slack_id a)).
                 candidates reg sl (start_datetime w) c
                 = map (new_message reg c)
                     (filter (\<lambda>r. \<exists>t. sent_at r t \<and> start_datetime w \<le> t)
                        (history sl c)))))
   \<and> (read_dm reg sl parameters = (Inr (RMessages ms), reg') \<longrightarrow>
      (\<exists>yn sn a sa chans cid raw.
           parameters ''your_name'' = Some yn \<and> parameters ''sender_name'' = Some sn
         \<and> get_agent reg yn = Inr a \<and> get_agent reg sn = Inr sa
         \<and> check_ongoing_dms sl = Some chans
         \<and> find_dm_channel sl (length (get_humans reg) + 2) (app_slack_id sa) (app_slack_id a)
              chans = Inr cid
         \<and> resp_messages (read sl cid) = Some raw
         \<and> (\<forall>w. world_name sa = world_name a \<and> get_world reg (world_name a) = Inr w
               \<longrightarrow> ms = map (dm_message reg cid)
                          (filter (\<lambda>r. \<exists>t. sent_at r t \<and> start_datetime w \<le> t) raw))))"
proof (intro conjI impI)
  assume "read_channel reg sl parameters = (Inr (RMessages ms), reg')"
  from read_channel_result[OF this]
  show "\<exists>yn a w cn ch raw.
           parameters ''your_name'' = Some yn \<and> get_agent reg yn = Inr a
         \<and> get_world reg (world_name a) = Inr w
         \<and> parameters ''channel_name'' = Some cn \<and> get_channel reg cn = Inr ch
         \<and> resp_messages (read sl (slack_id ch)) = Some raw
         \<and> ms = map (channel_message reg (slack_id ch))
                    (filter (\<lambda>r. \<exists>t. sent_at r t \<and> start_datetime w < t) raw)"
    by blast
next
  assume "check_new_messages reg sl parameters = (Inr (RNewMessages res), reg')"
  then show "\<exists>yn a w. parameters ''your_name'' = Some yn \<and> get_agent reg yn = Inr a
           \<and> get_world reg (world_name a) = Inr w
           \<and> res = map (\<lambda>c. filter (\<lambda>m. m \<notin> set (ledger reg yn c))
                               (candidates reg sl (start_datetime w) c))
                       (filter (\<lambda>c. candidates reg sl (start_datetime w) c \<noteq> [])
                          (polled_channels reg sl (app_slack_id a)))
           \<and> (\<forall>c \<in> set (polled_channels reg sl (app_slack_id a)).
                 candidates reg sl (start_datetime w) c
                 = map (new_message reg c)
                     (filter (\<lambda>r. \<exists>t. sent_at r t \<and> start_datetime w \<le> t)
                        (history sl c)))"
    by (rule check_new_messages_window)
next
  assume "read_dm reg sl parameters = (Inr (RMessages ms), reg')"
  then show "\<exists>yn sn a sa chans cid raw.
           parameters ''your_name'' = Some yn \<and> parameters ''sender_name'' = Some sn
         \<and> get_agent reg yn = Inr a \<and> get_agent reg sn = Inr sa
         \<and> check_ongoing_dms sl = Some chans
         \<and> find_dm_channel sl (length (get_humans reg) + 2) (app_slack_id sa) (app_slack_id a)
              chans = Inr cid
         \<and> resp_messages (read sl cid) = Some raw
         \<and> (\<forall>w. world_name sa = world_name a \<and> get_world reg (world_name a) = Inr w
               \<longrightarrow> ms = map (dm_message reg cid)
                          (filter (\<lambda>r. \<exists>t. sent_at r t \<and> start_datetime w \<le> t) raw))"
    by (rule read_dm_same_world)
qed

theorem time_window_by_call_site_witness:
  "fst (read_channel ex_reg
          (ex_slack_with [''UA'', ''UB'', ''UH'']
             [ex_raw ''UA'' ''x'' ''1000.000000'' 1000, ex_raw ''UA'' ''y'' ''1001.000000'' 1001]
             [ex_raw ''UA'' ''x'' ''1000.000000'' 1000, ex_raw ''UA'' ''y'' ''1001.000000'' 1001])
          [''your_name'' \<mapsto> ''bob'', ''channel_name'' \<mapsto> ''general'',
           ''sender_name'' \<mapsto> ''alice''])
     = Inr (RMessages [Message ''y'' ''C1'' ''UA'' (TsStr ''1001.000000'') None])
   \<and> fst (check_new_messages ex_reg
          (ex_slack_with [''UA'', ''UB'', ''UH'']
             [ex_raw ''UA'' ''x'' ''1000.000000'' 1000, ex_raw ''UA'' ''y'' ''1001.000000'' 1001]
             [ex_raw ''UA'' ''x'' ''1000.000000'' 1000, ex_raw ''UA'' ''y'' ''1001.000000'' 1001])
          [''your_name'' \<mapsto> ''bob'', ''channel_name'' \<mapsto> ''general'',
           ''sender_name'' \<mapsto> ''alice''])
     = Inr (RNewMessages
             [[Message ''x'' ''D1'' ''UA'' (TsStr ''1000'') (Some ''alice''),
               Message ''y'' ''D1'' ''UA'' (TsStr ''1001'') (Some ''alice'')],
              [Message ''x'' ''C1'' ''UA'' (TsStr ''1000'') (Some ''alice''),
               Message ''y'' ''C1'' ''UA'' (TsStr ''1001'') (Some ''alice'')]])
   \<and> fst (read_dm ex_reg
          (ex_slack_with [''UA'', ''UB'', ''UH'']
             [ex_raw ''UA'' ''x'' ''1000.000000'' 1000, ex_raw ''UA'' ''y'' ''1001.000000'' 1001]
             [ex_raw ''UA'' ''x'' ''1000.000000'' 1000, ex_raw ''UA'' ''y'' ''1001.000000'' 1001])
          [''your_name'' \<mapsto> ''bob'', ''channel_name'' \<mapsto> ''general'',
           ''sender_name'' \<mapsto> ''alice''])
     = Inr (RMessages [Message ''x'' ''D1'' ''UA'' (TsStr ''1000'') None,
                       Message ''y'' ''D1'' ''UA'' (TsStr ''1001'') None])
   \<and> sent_at (ex_raw ''UA'' ''x'' ''1000.000000'' 1000) 1000
   \<and> get_agent ex_reg ''bob'' = Inr (ex_agent ''W'' ''UB'')
   \<and> get_agent ex_reg ''alice'' = Inr (ex_agent ''W'' ''UA'')
   \<and> get_world ex_reg ''W'' = Inr \<lparr>start_datetime = 1000, world_channels = []\<rparr>"
proof -
  let ?raws = "[ex_raw ''UA'' ''x'' ''1000.000000'' 1000, ex_raw ''UA'' ''y'' ''1001.000000'' 1001]"
  let ?sl = "ex_slack_with [''UA'', ''UB'', ''UH''] ?raws ?raws"
  let ?p = "[''your_name'' \<mapsto> ''bob'', ''channel_name'' \<mapsto> ''general'',
             ''sender_name'' \<mapsto> ''alice'']"
  have e: "fst (read_channel ex_reg ?sl ?p)
             = Inr (RMessages [Message ''y'' ''C1'' ''UA'' (TsStr ''1001.000000'') None])
     \<and> fst (check_new_messages ex_reg ?sl ?p)
        = Inr (RNewMessages
             [[Message ''x'' ''D1'' ''UA'' (TsStr ''1000'') (Some ''alice''),
               Message ''y'' ''D1'' ''UA'' (TsStr ''1001'') (Some ''alice'')],
              [Message ''x'' ''C1'' ''UA'' (TsStr ''1000'') (Some ''alice''),
               Message ''y'' ''C1'' ''UA'' (TsStr ''1001'') (Some ''alice'')]])
     \<and> fst (read_dm ex_reg ?sl ?p)
        = Inr (RMessages [Message ''x'' ''D1'' ''UA'' (TsStr ''1000'') None,
                       Message ''y'' ''D1'' ''UA'' (TsStr ''1001'') None])
     \<and> sent_at (ex_raw ''UA'' ''x'' ''1000.000000'' 1000) 1000
     \<and> get_agent ex_reg ''bob'' = Inr (ex_agent ''W'' ''UB'')
     \<and> get_agent ex_reg ''alice'' = Inr (ex_agent ''W'' ''UA'')
     \<and> get_world ex_reg ''W'' = Inr \<lparr>start_datetime = 1000, world_channels = []\<rparr>"
    by (simp add: sent_at_def ex_defs reg_defs tool_defs ts_defs)
  then have h1: "read_channel ex_reg ?sl ?p
              = (Inr (RMessages [Message ''y'' ''C1'' ''UA'' (TsStr ''1001.000000'') None]),
                 snd (read_channel ex_reg ?sl ?p))"
    by (simp add: prod_eq_iff)
  from e have h2: "check_new_messages ex_reg ?sl ?p
              = (Inr (RNewMessages
             [[Message ''x'' ''D1'' ''UA'' (TsStr ''1000'') (Some ''alice''),
               Message ''y'' ''D1'' ''UA'' (TsStr ''1001'') (Some ''alice'')],
              [Message ''x'' ''C1'' ''UA'' (TsStr ''1000'') (Some ''alice''),
               Message ''y'' ''C1'' ''UA'' (TsStr ''1001'') (Some ''alice'')]]),
                 snd (check_new_messages ex_reg ?sl ?p))"
    by (simp add: prod_eq_iff)
  from e have h3: "read_dm ex_reg ?sl ?p
              = (Inr (RMessages [Message ''x'' ''D1'' ''UA'' (TsStr ''1000'') None,
                       Message ''y'' ''D1'' ''UA'' (TsStr ''1001'') None]),
                 snd (read_dm ex_reg ?sl ?p))"
    by (simp add: prod_eq_iff)
  note k1 = time_window_by_call_site[THEN conjunct1, THEN mp, OF h1]
  note k2 = time_window_by_call_site[THEN conjunct2, THEN conjunct1, THEN mp, OF h2]
  note k3 = time_window_by_call_site[THEN conjunct2, THEN conjunct2, THEN mp, OF h3]
  show ?thesis by (insert k1 k2 k3 e, assumption)
qed

theorem check_new_messages_boundary_counterexample:
  "fst (call_tool ex_reg
          (ex_slack_with [''UA'', ''UB'', ''UH''] [] [ex_raw ''UA'' ''x'' ''1000.000000'' 1000])
          1006 ''check_new_messages'' [''your_name'' \<mapsto> ''bob''])
     = Inr (RNewMessages [[Message ''x'' ''C1'' ''UA'' (TsStr ''1000'') (Some ''alice'')]])
   \<and> fst (call_tool ex_reg
          (ex_slack_with [''UA'', ''UB'', ''UH''] [] [ex_raw ''UA'' ''x'' ''1000.000000'' 1000])
          1006 ''read_channel'' [''your_name'' \<mapsto> ''bob'', ''channel_name'' \<mapsto> ''general''])
     = Inr (RMessages [])
   \<and> sent_at (ex_raw ''UA'' ''x'' ''1000.000000'' 1000) 1000
   \<and> list_channels (ex_slack_with [''UA'', ''UB'', ''UH''] []
         [ex_raw ''UA'' ''x'' ''1000.000000'' 1000]) = Some [(''C1'', ''general'')]
   \<and> get_world_starttime_of_agent ex_reg ''bob'' = Inr 1000"
  by (simp add: sent_at_def ex_defs reg_defs tool_defs ts_defs)

text \<open>
  C7. The claim is that every read operation resolves the sender of a backend record by
  the agent-name reverse lookup first and by the human-name reverse lookup when the
  sender is not an agent. The code does not: \<^verbatim>\<open>check_new_messages\<close> (line 330) calls
  \<^verbatim>\<open>get_agent_name_from_id\<close> alone, so a message of the human carol gets no name;
  \<^verbatim>\<open>read_channel\<close> and \<^verbatim>\<open>read_dm\<close> (lines 215, 268) test the sender's backend
  identity against the list of agent names, so a message of the agent alice is resolved
  by the human lookup and gets no name either.
\<close>

theorem sender_name_resolution_at_failing_input:
  "fst (call_tool ex_reg
          (ex_slack [''UA'', ''UB'', ''UH''] [ex_raw ''UH'' ''hi'' ''1005.000000'' 1005])
          1006 ''check_new_messages'' [''your_name'' \<mapsto> ''bob''])
     = Inr (RNewMessages [[Message ''hi'' ''D1'' ''UH'' (TsStr ''1005'') None]])
   \<and> get_agent_name_from_id ex_reg ''UH'' = None
   \<and> get_human_name_from_id ex_reg ''UH'' = Some ''carol''
   \<and> fst (call_tool ex_reg
          (ex_slack [''UA'', ''UB'', ''UH''] [ex_raw ''UA'' ''hello'' ''1005.000000'' 1005])
          1006 ''read_dm'' [''your_name'' \<mapsto> ''bob'', ''sender_name'' \<mapsto> ''alice''])
     = Inr (RMessages [Message ''hello'' ''D1'' ''UA'' (TsStr ''1005'') None])
   \<and> get_agent_name_from_id ex_reg ''UA'' = Some ''alice''"
  by (simp add: ex_defs reg_defs tool_defs ts_defs)

lemma send_message_to_human_unknown_human:
  assumes "parameters ''human_name'' = Some hn" and "hn \<notin> set (get_human_names reg)"
  shows "\<exists>e. send_message_to_human reg sl now parameters = (Inl e, reg)"
proof -
  have "find (\<lambda>h. human_name h = hn) (humans reg) = None"
    using assms(2) by (auto simp: find_None_iff get_human_names_def)
  then have "get_human reg hn = Inl NotFound"
    by (simp add: get_human_def)
  then show ?thesis
    using assms(1)
    by (auto simp: send_message_to_human_def attempt_def param_def split: sum.splits option.splits)
qed

text \<open>
  C9. The claim is that \<^verbatim>\<open>send_message_to_human\<close> answers an unknown human name
  with a string that lists the valid names. The code looks the human up
  (\<^verbatim>\<open>self.registry.get_human(...).slack_member_id\<close>, line 352) before it tests
  whether the name exists (line 354), so for an unknown name the lookup raises and the
  string is never returned.
\<close>

theorem send_message_to_human_at_failing_input:
  "''zed'' \<notin> set (get_human_names ex_reg)
   \<and> call_tool ex_reg (ex_slack [''UA'', ''UB'', ''UH''] []) 1006 ''send_message_to_human''
       [''your_name'' \<mapsto> ''bob'', ''human_name'' \<mapsto> ''zed'', ''message'' \<mapsto> ''hi'']
     = (Inl NotFound, ex_reg)"
  by (simp add: ex_defs reg_defs tool_defs)

end
